theory Spec2Isabelle
  imports Main "HOL-Library.Word" "HOL-Library.Signed_Division"
begin

section \<open>C integers, constants and records of linux\_rtapi.c\<close>

text \<open>
  The period fields and the clock values are machine integers: \<open>int\<close> is a 32-bit
  two's complement word, \<open>unsigned long\<close>, \<open>long\<close> and \<open>time_t\<close> are 64-bit words
  (the \<open>__x86_64__\<close> branch of the file). A conversion from \<open>unsigned long\<close> or
  \<open>long\<close> to \<open>int\<close> keeps the low 32 bits (\<open>ucast\<close>), a conversion from \<open>int\<close> to
  \<open>unsigned long\<close> extends the sign (\<open>scast\<close>); \<open>sint\<close> reads a word as signed.
  Handles, priorities, flags, counters and return codes, on which the code does no
  arithmetic that leaves the \<open>int\<close> range, are HOL integers. Pointers and thread
  handles are natural numbers, 0 being \<open>NULL\<close>; a \<open>task_data *\<close> is the index of its
  slot in \<open>task_array\<close>. Every call is one step on the state: the mutexes, which guard
  the scans of the tables, are not part of it, and a message is recorded by its level.
\<close>

type_synonym cint = "32 word"
type_synonym ulong = "64 word"
type_synonym clong = "64 word"

definition MODULE_MAGIC :: int where "MODULE_MAGIC = 30812"
definition TASK_MAGIC :: int where "TASK_MAGIC = 21979"
definition MAX_TASKS :: nat where "MAX_TASKS = 64"
definition MAX_MODULES :: nat where "MAX_MODULES = 64"
definition MODULE_OFFSET :: int where "MODULE_OFFSET = 32768"

text \<open>The error numbers of \<open>errno.h\<close> on Linux.\<close>

definition ENOENT :: int where "ENOENT = 2"
definition ENOMEM :: int where "ENOMEM = 12"
definition EINVAL :: int where "EINVAL = 22"
definition EMFILE :: int where "EMFILE = 24"
definition ENOSYS :: int where "ENOSYS = 38"

text \<open>The message levels the two files name (rtapi.h is not among the sources).\<close>

datatype msg_level = RTAPI_MSG_NONE | RTAPI_MSG_ERR | RTAPI_MSG_WARN | RTAPI_MSG_INFO | RTAPI_MSG_DBG

text \<open>What the process does where C leaves the behaviour undefined and Linux traps.\<close>

datatype fault = NullDeref | DivideError

record timespec =
  tv_sec :: clong
  tv_nsec :: clong

subsection \<open>rtapi\_advance\_time (linux\_rtapi.c 95-105, rt-preempt.c 175-184)\<close>

text \<open>
  The \<open>while (ns > 1000000000)\<close> loop on \<open>unsigned long\<close> values: the comparison is
  unsigned, and the subtraction cannot wrap under the guard.
\<close>

function advance_loop :: "ulong \<Rightarrow> ulong \<Rightarrow> ulong \<times> ulong" where
  "advance_loop ns s =
     (if ns > 1000000000 then advance_loop (ns - 1000000000) (s + 1) else (ns, s))"
  by pat_completeness auto
termination
  by (relation "measure (\<lambda>(ns, s). unat ns)")
     (simp_all add: word_less_nat_alt unat_sub word_le_nat_alt)

declare advance_loop.simps [simp del]

definition rtapi_advance_time :: "timespec \<Rightarrow> ulong \<Rightarrow> ulong \<Rightarrow> timespec" where
  "rtapi_advance_time tv ns s =
     (let (ns', s') = advance_loop (ns + tv_nsec tv) s
      in tv\<lparr>tv_nsec := ns', tv_sec := tv_sec tv + s'\<rparr>)"

text \<open>The nanoseconds a timespec stands for, both fields read as signed.\<close>

definition timespec_ns :: "timespec \<Rightarrow> int" where
  "timespec_ns tv = sint (tv_sec tv) * 1000000000 + sint (tv_nsec tv)"

subsection \<open>The task and module tables\<close>

text \<open>
  Modelled from the spec: the declarations of \<open>task_data\<close> and \<open>module_data\<close>
  (rtapi\_common.h is not among the sources). The fields are those of the spec's data
  model that linux\_rtapi.c reads and writes, under the names the file gives them and
  with the types its uses show: \<open>task->period\<close> and \<open>task->ratio\<close> are printed with
  \<open>%d\<close> and compared with the file's \<open>static int period\<close>. \<open>thread_init_barrier\<close>
  holds the party count of an initialised barrier, and \<open>m_magic\<close> is the \<open>magic\<close>
  field of a module.
\<close>

record task_data =
  magic :: int
  name :: string
  owner :: int
  arg :: nat
  stacksize :: ulong
  stackaddr :: nat
  destroyed :: int
  deleted :: int
  taskcode :: nat
  prio :: int
  uses_fp :: int
  cpu :: int
  period :: cint
  ratio :: cint
  thread :: nat
  thread_init_barrier :: "nat option"
  next_time :: timespec
  deadline_scheduling :: int
  failures :: int
  minfault_base :: ulong
  majfault_base :: ulong

record module_data =
  m_magic :: int

text \<open>
  The state of the process: the file's \<open>static int period\<close> (\<open>g_period\<close>, the field
  of the same name in \<open>task_data\<close> being \<open>period\<close>), the two tables, the blocks that
  malloc has handed out and free has not taken back, the value of \<open>task_key\<close> in each
  thread (none for a thread that never called pthread\_setspecific), the thread
  handles passed to pthread\_join, and the levels of the messages given to
  rtapi\_print\_msg, oldest first.
\<close>

record rtapi_state =
  g_period :: cint
  module_array :: "module_data list"
  task_array :: "task_data list"
  heap :: "nat set"
  tls :: "nat \<rightharpoonup> nat"
  joins :: "nat list"
  msgs :: "msg_level list"

text \<open>What the operating system answers: the priority range of SCHED\_FIFO.\<close>

record os_sched =
  sched_priority_max :: int
  sched_priority_min :: int

definition rtapi_print_msg :: "msg_level \<Rightarrow> rtapi_state \<Rightarrow> rtapi_state" where
  "rtapi_print_msg lvl s = s\<lparr>msgs := msgs s @ [lvl]\<rparr>"

definition upd_task :: "nat \<Rightarrow> (task_data \<Rightarrow> task_data) \<Rightarrow> rtapi_state \<Rightarrow> rtapi_state" where
  "upd_task n f s = s\<lparr>task_array := (task_array s)[n := f (task_array s ! n)]\<rparr>"

definition free :: "nat \<Rightarrow> rtapi_state \<Rightarrow> rtapi_state" where
  "free p s = s\<lparr>heap := heap s - {p}\<rparr>"

subsection \<open>Thread-local task pointer (linux\_rtapi.c 107-122)\<close>

definition rtapi_set_task :: "nat \<Rightarrow> nat \<Rightarrow> rtapi_state \<Rightarrow> rtapi_state" where
  "rtapi_set_task tid t s = s\<lparr>tls := (tls s)(tid \<mapsto> t)\<rparr>"

definition rtapi_this_task :: "nat \<Rightarrow> rtapi_state \<Rightarrow> nat option" where
  "rtapi_this_task tid s = tls s tid"

subsection \<open>Priorities (linux\_rtapi.c 124-156)\<close>

definition rtapi_prio_highest :: "os_sched \<Rightarrow> int" where
  "rtapi_prio_highest os = sched_priority_max os"

definition rtapi_prio_lowest :: "os_sched \<Rightarrow> int" where
  "rtapi_prio_lowest os = sched_priority_min os"

definition rtapi_prio_next_higher :: "os_sched \<Rightarrow> int \<Rightarrow> int" where
  "rtapi_prio_next_higher os p =
     (if p \<ge> rtapi_prio_highest os then rtapi_prio_highest os
      else if p < rtapi_prio_lowest os then rtapi_prio_lowest os
      else p + 1)"

definition rtapi_prio_next_lower :: "os_sched \<Rightarrow> int \<Rightarrow> int" where
  "rtapi_prio_next_lower os p =
     (if p \<le> rtapi_prio_lowest os then rtapi_prio_lowest os
      else if p > rtapi_prio_highest os then rtapi_prio_highest os
      else p - 1)"

subsection \<open>Modules (linux\_rtapi.c 158-187)\<close>

text \<open>
  The \<open>for\<close> loop of rtapi\_init: the first slot from \<open>n\<close> on whose magic is not
  MODULE\_MAGIC, or MAX\_MODULES when the loop runs out.
\<close>

function module_scan :: "nat \<Rightarrow> module_data list \<Rightarrow> nat" where
  "module_scan n ma =
     (if n < MAX_MODULES then
        (if m_magic (ma ! n) \<noteq> MODULE_MAGIC then n else module_scan (n + 1) ma)
      else n)"
  by pat_completeness auto
termination
  by (relation "measure (\<lambda>(n, ma). MAX_MODULES - n)") simp_all

declare module_scan.simps [simp del]

definition rtapi_init :: "string option \<Rightarrow> rtapi_state \<Rightarrow> int \<times> rtapi_state" where
  "rtapi_init modname s =
     (let n = module_scan 0 (module_array s)
      in if n < MAX_MODULES
         then (int n + MODULE_OFFSET,
               s\<lparr>module_array := (module_array s)[n := (module_array s ! n)\<lparr>m_magic := MODULE_MAGIC\<rparr>]\<rparr>)
         else (- ENOMEM, s))"

definition rtapi_exit :: "int \<Rightarrow> rtapi_state \<Rightarrow> int \<times> rtapi_state" where
  "rtapi_exit module_id s =
     (let n = module_id - MODULE_OFFSET
      in if n < 0 \<or> n \<ge> int MAX_MODULES then (- 1, s)
         else (0, s\<lparr>module_array :=
                      (module_array s)[nat n := (module_array s ! nat n)\<lparr>m_magic := 0\<rparr>]\<rparr>))"

subsection \<open>The clock period (linux\_rtapi.c 189-208)\<close>

text \<open>
  \<open>res_nsec\<close> is the \<open>tv_nsec\<close> that clock\_getres stores. The quotient and the
  product are \<open>unsigned long\<close>; the assignment to the \<open>int\<close> \<open>period\<close> keeps the low 32
  bits. A resolution of 0 makes the division trap.
\<close>

definition rtapi_clock_set_period ::
  "clong \<Rightarrow> ulong \<Rightarrow> rtapi_state \<Rightarrow> fault + (int \<times> rtapi_state)" where
  "rtapi_clock_set_period res_nsec nsecs s =
     (if nsecs = 0 then Inr (sint (g_period s), s)
      else if g_period s \<noteq> 0 then Inr (- EINVAL, rtapi_print_msg RTAPI_MSG_ERR s)
      else if res_nsec = 0 then Inl DivideError
      else
        let p = (ucast ((nsecs div res_nsec) * res_nsec) :: cint);
            p' = (if sint p < 1 then ucast res_nsec else p);
            s' = rtapi_print_msg RTAPI_MSG_DBG (s\<lparr>g_period := p'\<rparr>)
        in Inr (sint p', s'))"

subsection \<open>Page-fault counters (linux\_rtapi.c 62-93)\<close>

text \<open>The two counters that getrusage reports.\<close>

record rusage =
  ru_minflt :: ulong
  ru_majflt :: ulong

definition rtapi_get_pagefault_count :: "rusage \<Rightarrow> nat \<Rightarrow> rtapi_state \<Rightarrow> ulong \<times> rtapi_state" where
  "rtapi_get_pagefault_count ru t s =
     (let task = task_array s ! t; minor = ru_minflt ru; major = ru_majflt ru
      in if minor < minfault_base task \<or> major < majfault_base task
         then (0, rtapi_print_msg RTAPI_MSG_ERR s)
         else ((minor - minfault_base task) + (major - majfault_base task), s))"

definition rtapi_reset_pagefault_count :: "rusage \<Rightarrow> nat \<Rightarrow> rtapi_state \<Rightarrow> rtapi_state" where
  "rtapi_reset_pagefault_count ru t s =
     (let task = task_array s ! t
      in if minfault_base task \<noteq> ru_minflt ru \<or> majfault_base task \<noteq> ru_majflt ru
         then rtapi_print_msg RTAPI_MSG_DBG
                (upd_task t (\<lambda>x. x\<lparr>minfault_base := ru_minflt ru, majfault_base := ru_majflt ru\<rparr>) s)
         else s)"

subsection \<open>rtapi\_task\_new and rtapi\_task\_delete (linux\_rtapi.c 210-304)\<close>

text \<open>
  The \<open>while\<close> loop of rtapi\_task\_new: the first slot from \<open>n\<close> on whose magic is not
  TASK\_MAGIC, or MAX\_TASKS.
\<close>

function task_scan :: "nat \<Rightarrow> task_data list \<Rightarrow> nat" where
  "task_scan n ta =
     (if n < MAX_TASKS \<and> magic (ta ! n) = TASK_MAGIC then task_scan (n + 1) ta else n)"
  by pat_completeness auto
termination
  by (relation "measure (\<lambda>(n, ta). MAX_TASKS - n)") auto

declare task_scan.simps [simp del]

text \<open>
  \<open>malloc_ret\<close> is the address malloc returns, 0 when it fails. \<open>sizeof_name\<close> is
  \<open>sizeof(task->name)\<close>, a constant of the absent header: strncpy and the final
  \<open>'\0'\<close> keep the first \<open>sizeof_name - 1\<close> characters of the name.
\<close>

definition rtapi_task_new ::
  "os_sched \<Rightarrow> nat \<Rightarrow> nat \<Rightarrow> nat \<Rightarrow> nat \<Rightarrow> int \<Rightarrow> int \<Rightarrow> ulong \<Rightarrow> int \<Rightarrow> string \<Rightarrow> int
     \<Rightarrow> rtapi_state \<Rightarrow> int \<times> rtapi_state" where
  "rtapi_task_new os sizeof_name malloc_ret taskcode' arg' prio' owner' stacksize' uses_fp' name' cpu_id s =
     (let stacksize1 = (if stacksize' > 16384 then stacksize' else 16384);
          stackaddr' = malloc_ret
      in if stackaddr' = 0 then (- ENOMEM, rtapi_print_msg RTAPI_MSG_ERR s)
         else
           let s1 = s\<lparr>heap := insert stackaddr' (heap s)\<rparr>;
               n = task_scan 0 (task_array s1)
           in if n = MAX_TASKS then (- ENOMEM, free stackaddr' s1)
              else
                let s2 = upd_task n (\<lambda>x. x\<lparr>magic := TASK_MAGIC\<rparr>) s1;
                    highest = rtapi_prio_highest os;
                    lowest = rtapi_prio_lowest os
                in if prio' < lowest \<or> prio' > highest
                   then (- EINVAL, free stackaddr' (rtapi_print_msg RTAPI_MSG_ERR s2))
                   else (int n,
                         upd_task n
                           (\<lambda>x. x\<lparr>owner := owner', arg := arg', stacksize := stacksize1,
                                  stackaddr := stackaddr', destroyed := 0, taskcode := taskcode',
                                  prio := prio', uses_fp := uses_fp', cpu := cpu_id,
                                  name := take (sizeof_name - 1) name'\<rparr>)
                           (rtapi_print_msg RTAPI_MSG_DBG s2)))"

text \<open>
  \<open>join_err\<close> is what pthread\_join returns. The join itself is recorded in \<open>joins\<close>;
  the wait for the thread to end is not part of the state.
\<close>

definition rtapi_task_delete :: "int \<Rightarrow> int \<Rightarrow> rtapi_state \<Rightarrow> int \<times> rtapi_state" where
  "rtapi_task_delete join_err task_id s =
     (if task_id < 0 \<or> task_id \<ge> int MAX_TASKS then (- EINVAL, s)
      else
        let t = nat task_id
        in if magic (task_array s ! t) \<noteq> TASK_MAGIC then (- EINVAL, s)
           else
             let s1 = (if deleted (task_array s ! t) = 0
                       then
                         let sa = upd_task t (\<lambda>x. x\<lparr>deleted := 1\<rparr>) s;
                             sb = sa\<lparr>joins := joins sa @ [thread (task_array sa ! t)]\<rparr>
                         in if join_err \<noteq> 0 then rtapi_print_msg RTAPI_MSG_ERR sb else sb
                       else s);
                 s2 = free (stackaddr (task_array s1 ! t)) s1;
                 s3 = upd_task t (\<lambda>x. x\<lparr>stackaddr := 0\<rparr>) s2
             in (0, upd_task t (\<lambda>x. x\<lparr>magic := 0\<rparr>) s3))"

subsection \<open>The realtime thread (linux\_rtapi.c 306-494)\<close>

text \<open>
  \<open>cpus\<close> is the set pthread\_getaffinity\_np reports, \<open>setaffinity_err\<close> what
  pthread\_setaffinity\_np returns. \<open>last_cpu k\<close> is the descending \<open>for\<close> loop with
  \<open>cpu_nr\<close> running from \<open>k - 1\<close> down to 0; CPU\_SETSIZE is 1024.
\<close>

fun last_cpu :: "nat \<Rightarrow> nat set \<Rightarrow> int" where
  "last_cpu 0 cpus = - 1"
| "last_cpu (Suc k) cpus = (if k \<in> cpus then int k else last_cpu k cpus)"

definition CPU_ISSET :: "int \<Rightarrow> nat set \<Rightarrow> bool" where
  "CPU_ISSET c cpus = (0 \<le> c \<and> c < 1024 \<and> nat c \<in> cpus)"

definition realtime_set_affinity :: "nat set \<Rightarrow> int \<Rightarrow> nat \<Rightarrow> rtapi_state \<Rightarrow> int \<times> rtapi_state" where
  "realtime_set_affinity cpus setaffinity_err t s =
     (let task = task_array s ! t
      in if cpu task > - 1 \<and> \<not> CPU_ISSET (cpu task) cpus
         then (- EINVAL, rtapi_print_msg RTAPI_MSG_ERR s)
         else
           let use_cpu = (if cpu task > - 1 then cpu task else last_cpu 1024 cpus)
           in if use_cpu < 0 then (- EINVAL, rtapi_print_msg RTAPI_MSG_ERR s)
              else
                let s1 = (if cpu task > - 1 then s else rtapi_print_msg RTAPI_MSG_DBG s)
                in if setaffinity_err \<noteq> 0 then (- EINVAL, rtapi_print_msg RTAPI_MSG_ERR s1)
                   else (0, rtapi_print_msg RTAPI_MSG_DBG s1))"

text \<open>
  ENABLE\_SCHED\_DEADLINE is 0, so the DEADLINE branch is never taken;
  \<open>setscheduler_err\<close> is what sched\_setscheduler returns for SCHED\_FIFO.
\<close>

definition realtime_set_priority :: "int \<Rightarrow> nat \<Rightarrow> rtapi_state \<Rightarrow> int \<times> rtapi_state" where
  "realtime_set_priority setscheduler_err t s =
     (let s1 = upd_task t (\<lambda>x. x\<lparr>deadline_scheduling := 0\<rparr>) s
      in if setscheduler_err \<noteq> 0 then (1, rtapi_print_msg RTAPI_MSG_ERR s1) else (0, s1))"

text \<open>What the environment answers during one rtapi\_task\_start.\<close>

record start_env =
  create_retval :: int
  new_thread :: nat
  start_rusage :: rusage
  cpus_allowed :: "nat set"
  setaffinity_retval :: int
  setscheduler_retval :: int

text \<open>
  realtime\_thread up to the barrier, run by thread \<open>tid\<close> on task \<open>t\<close>: the result is
  whether the initialisation succeeded. The division \<open>task->period / period\<close> is a
  signed \<open>int\<close> division, which traps on a zero divisor and on INT\_MIN / -1.
\<close>

definition realtime_thread_init ::
  "start_env \<Rightarrow> nat \<Rightarrow> nat \<Rightarrow> rtapi_state \<Rightarrow> fault + (bool \<times> rtapi_state)" where
  "realtime_thread_init env tid t s =
     (let s1 = rtapi_set_task tid t s;
          s2 = rtapi_reset_pagefault_count (start_rusage env) t s1;
          s3 = (if sint (period (task_array s2 ! t)) < sint (g_period s2)
                then upd_task t (\<lambda>x. x\<lparr>period := g_period s2\<rparr>) s2 else s2);
          p = period (task_array s3 ! t)
      in if g_period s3 = 0 \<or> (p = - 2147483648 \<and> g_period s3 = - 1) then Inl DivideError
         else
           let s4 = rtapi_print_msg RTAPI_MSG_DBG
                      (upd_task t (\<lambda>x. x\<lparr>ratio := word_of_int (sint p sdiv sint (g_period s3))\<rparr>) s3);
               (ra, s5) = realtime_set_affinity (cpus_allowed env) (setaffinity_retval env) t s4
           in if ra \<noteq> 0 then Inr (False, upd_task t (\<lambda>x. x\<lparr>deleted := 1\<rparr>) s5)
              else
                let (rp, s6) = realtime_set_priority (setscheduler_retval env) t s5
                in if rp \<noteq> 0 then Inr (False, upd_task t (\<lambda>x. x\<lparr>deleted := 1\<rparr>) s6)
                   else Inr (True, s6))"

text \<open>
  After the barrier the thread seeds \<open>next_time\<close> from the clock (\<open>ts\<close> is what
  clock\_gettime stores) and calls the task code; when that returns it marks the task
  deleted.
\<close>

definition realtime_thread_seed :: "timespec \<Rightarrow> nat \<Rightarrow> rtapi_state \<Rightarrow> rtapi_state" where
  "realtime_thread_seed ts t s =
     upd_task t (\<lambda>x. x\<lparr>next_time := rtapi_advance_time ts (scast (period x)) 0\<rparr>) s"

definition realtime_thread_end :: "nat \<Rightarrow> rtapi_state \<Rightarrow> rtapi_state" where
  "realtime_thread_end t s = upd_task t (\<lambda>x. x\<lparr>deleted := 1\<rparr>) (rtapi_print_msg RTAPI_MSG_ERR s)"

subsection \<open>rtapi\_task\_start and the other task operations (linux\_rtapi.c 496-610)\<close>

text \<open>
  The starter and the new thread meet at the barrier: the thread's initialisation runs
  between pthread\_create and the starter's return from pthread\_barrier\_wait. The
  comparison and the division of \<open>period_nsec\<close> by \<open>period\<close> are \<open>unsigned long\<close>
  operations; the stores into \<open>task->period\<close> and \<open>task->ratio\<close> keep the low 32 bits.
\<close>

definition rtapi_task_start ::
  "start_env \<Rightarrow> int \<Rightarrow> ulong \<Rightarrow> rtapi_state \<Rightarrow> fault + (int \<times> rtapi_state)" where
  "rtapi_task_start env task_id period_nsec s =
     (if task_id < 0 \<or> task_id \<ge> int MAX_TASKS then Inr (- EINVAL, s)
      else
        let t = nat task_id
        in if magic (task_array s ! t) \<noteq> TASK_MAGIC then Inr (- EINVAL, s)
           else
             let gp = (scast (g_period s) :: ulong);
                 period_nsec1 = (if period_nsec < gp then gp else period_nsec)
             in if gp = 0 then Inl DivideError
                else
                  let s1 = upd_task t
                             (\<lambda>x. x\<lparr>period := ucast period_nsec1,
                                    ratio := ucast (period_nsec1 div gp),
                                    deleted := 0,
                                    thread_init_barrier := Some 2\<rparr>) s;
                      s2 = rtapi_print_msg RTAPI_MSG_DBG s1
                  in if create_retval env \<noteq> 0
                     then Inr (- ENOMEM,
                               rtapi_print_msg RTAPI_MSG_ERR
                                 (upd_task t (\<lambda>x. x\<lparr>thread_init_barrier := None\<rparr>)
                                    (rtapi_print_msg RTAPI_MSG_DBG s2)))
                     else
                       let s3 = rtapi_print_msg RTAPI_MSG_DBG
                                  (upd_task t (\<lambda>x. x\<lparr>thread := new_thread env\<rparr>) s2)
                       in case realtime_thread_init env (new_thread env) t s3 of
                            Inl f \<Rightarrow> Inl f
                          | Inr (ok, s4) \<Rightarrow>
                              let s5 = upd_task t (\<lambda>x. x\<lparr>thread_init_barrier := None\<rparr>) s4
                              in if deleted (task_array s5 ! t) \<noteq> 0
                                 then Inr (- ENOMEM, rtapi_print_msg RTAPI_MSG_ERR s5)
                                 else Inr (0, rtapi_print_msg RTAPI_MSG_DBG s5))"

definition rtapi_task_stop :: "int \<Rightarrow> rtapi_state \<Rightarrow> int \<times> rtapi_state" where
  "rtapi_task_stop task_id s =
     (if task_id < 0 \<or> task_id \<ge> int MAX_TASKS then (- EINVAL, s)
      else if magic (task_array s ! nat task_id) \<noteq> TASK_MAGIC then (- EINVAL, s)
      else (0, upd_task (nat task_id) (\<lambda>x. x\<lparr>destroyed := 1\<rparr>) s))"

definition rtapi_task_pause :: "int \<Rightarrow> rtapi_state \<Rightarrow> int \<times> rtapi_state" where
  "rtapi_task_pause task_id s =
     (if task_id < 0 \<or> task_id \<ge> int MAX_TASKS then (- EINVAL, s)
      else if magic (task_array s ! nat task_id) \<noteq> TASK_MAGIC then (- EINVAL, s)
      else (- ENOSYS, s))"

definition rtapi_task_resume :: "int \<Rightarrow> rtapi_state \<Rightarrow> int \<times> rtapi_state" where
  "rtapi_task_resume task_id s =
     (if task_id < 0 \<or> task_id \<ge> int MAX_TASKS then (- EINVAL, s)
      else if magic (task_array s ! nat task_id) \<noteq> TASK_MAGIC then (- EINVAL, s)
      else (- ENOSYS, s))"

definition rtapi_task_set_period :: "int \<Rightarrow> ulong \<Rightarrow> rtapi_state \<Rightarrow> int \<times> rtapi_state" where
  "rtapi_task_set_period task_id period_nsec s =
     (if task_id < 0 \<or> task_id \<ge> int MAX_TASKS then (- EINVAL, s)
      else if magic (task_array s ! nat task_id) \<noteq> TASK_MAGIC then (- EINVAL, s)
      else (0, upd_task (nat task_id) (\<lambda>x. x\<lparr>period := ucast period_nsec\<rparr>) s))"

subsection \<open>rtapi\_wait (linux\_rtapi.c 612-652)\<close>

text \<open>
  A call of rtapi\_wait by thread \<open>tid\<close> returns, ends the thread (pthread\_exit) or
  traps. \<open>ts\<close> is what clock\_gettime stores after the sleep and \<open>ru\<close> what getrusage
  reports; the sleep itself changes nothing in the state. \<open>deadline_after\<close> is the test
  of lines 626-628 (and of rt-preempt.c 438-440), on signed \<open>time_t\<close> and \<open>long\<close>
  values.
\<close>

datatype wait_result = Wait_Returned int rtapi_state | Wait_Thread_Exit rtapi_state | Wait_Fault fault

definition deadline_after :: "timespec \<Rightarrow> timespec \<Rightarrow> bool" where
  "deadline_after ts nt =
     (sint (tv_sec ts) > sint (tv_sec nt)
      \<or> (tv_sec ts = tv_sec nt \<and> sint (tv_nsec ts) > sint (tv_nsec nt)))"

definition rtapi_wait :: "timespec \<Rightarrow> rusage \<Rightarrow> nat \<Rightarrow> rtapi_state \<Rightarrow> wait_result" where
  "rtapi_wait ts ru tid s =
     (case rtapi_this_task tid s of
        None \<Rightarrow> Wait_Fault NullDeref
      | Some t \<Rightarrow>
          if deleted (task_array s ! t) \<noteq> 0 then Wait_Thread_Exit s
          else
            let s1 = upd_task t
                       (\<lambda>x. x\<lparr>next_time := rtapi_advance_time (next_time x) (scast (period x)) 0\<rparr>) s
            in if deadline_after ts (next_time (task_array s1 ! t))
               then
                 let s2 = upd_task t (\<lambda>x. x\<lparr>failures := failures x + 1\<rparr>) s1;
                     msg_level = (if failures (task_array s2 ! t) = 1 then RTAPI_MSG_ERR
                                  else if failures (task_array s2 ! t) < 10 then RTAPI_MSG_WARN
                                  else RTAPI_MSG_NONE)
                 in if msg_level \<noteq> RTAPI_MSG_NONE
                    then Wait_Returned 0
                           (rtapi_print_msg msg_level (snd (rtapi_get_pagefault_count ru t s2)))
                    else Wait_Returned 0 s2
               else Wait_Returned 0 s1)"

section \<open>rt-preempt.c\<close>

subsection \<open>The module registry (rt-preempt.c 70-124)\<close>

text \<open>
  Modelled from the spec: the declarations of \<open>module_data\<close> and \<open>rtapi_data\<close>, with
  the fields \_rtapi\_init and \_rtapi\_exit use (the headers are not among the sources;
  \<open>m_name\<close> is the \<open>name\<close> field of a module, and NO\_MODULE and REALTIME are the two
  module states the file names). The constants RTAPI\_MAX\_MODULES and RTAPI\_NAME\_LEN
  are parameters, and the module table has the slots 0..RTAPI\_MAX\_MODULES, of which
  \_rtapi\_init uses 1..RTAPI\_MAX\_MODULES. \<open>rtp_rtapi_init\<close> and \<open>rtp_rtapi_exit\<close> are \_rtapi\_init and
  \_rtapi\_exit of the RTAPI build. rtapi\_snprintf keeps at most RTAPI\_NAME\_LEN - 1
  characters; \<open>format_03d\<close> is the conversion \<open>%03d\<close> of a number that is not
  negative.
\<close>

datatype mod_type_t = NO_MODULE | REALTIME

record rtp_module_data =
  state :: mod_type_t
  m_name :: string

record rtapi_data_t =
  rtp_module_array :: "rtp_module_data list"
  ul_module_count :: int
  rtp_msgs :: "msg_level list"

record rtp_config =
  RTAPI_MAX_MODULES :: nat
  RTAPI_NAME_LEN :: nat

text \<open>The decimal digits of a number, most significant first.\<close>

function decimal :: "nat \<Rightarrow> string" where
  "decimal n =
     (if n < 10 then [''0123456789'' ! n] else decimal (n div 10) @ [''0123456789'' ! (n mod 10)])"
  by pat_completeness auto
termination
  by (relation "measure id") simp_all

declare decimal.simps [simp del]

definition format_03d :: "nat \<Rightarrow> string" where
  "format_03d n = replicate (3 - length (decimal n)) CHR ''0'' @ decimal n"

function rtp_module_scan :: "nat \<Rightarrow> nat \<Rightarrow> rtp_module_data list \<Rightarrow> nat" where
  "rtp_module_scan mx n ma =
     (if n \<le> mx \<and> state (ma ! n) \<noteq> NO_MODULE then rtp_module_scan mx (n + 1) ma else n)"
  by pat_completeness auto
termination
  by (relation "measure (\<lambda>(mx, n, ma). mx + 1 - n)") auto

declare rtp_module_scan.simps [simp del]

definition rtp_print_msg :: "msg_level \<Rightarrow> rtapi_data_t \<Rightarrow> rtapi_data_t" where
  "rtp_print_msg lvl d = d\<lparr>rtp_msgs := rtp_msgs d @ [lvl]\<rparr>"

definition rtp_rtapi_init :: "rtp_config \<Rightarrow> string option \<Rightarrow> rtapi_data_t \<Rightarrow> int \<times> rtapi_data_t" where
  "rtp_rtapi_init cfg modname d =
     (let d1 = rtp_print_msg RTAPI_MSG_DBG d;
          n = rtp_module_scan (RTAPI_MAX_MODULES cfg) 1 (rtp_module_array d1)
      in if n > RTAPI_MAX_MODULES cfg then (- EMFILE, rtp_print_msg RTAPI_MSG_ERR d1)
         else
           let module_id = int n + MODULE_OFFSET;
               nm = (case modname of
                       Some x \<Rightarrow> take (RTAPI_NAME_LEN cfg - 1) x
                     | None \<Rightarrow> take (RTAPI_NAME_LEN cfg - 1) (''ULMOD'' @ format_03d (nat module_id)));
               d2 = d1\<lparr>rtp_module_array :=
                         (rtp_module_array d1)[n := (rtp_module_array d1 ! n)\<lparr>state := REALTIME, m_name := nm\<rparr>],
                       ul_module_count := ul_module_count d1 + 1\<rparr>
           in (module_id, rtp_print_msg RTAPI_MSG_DBG d2))"

definition rtp_rtapi_exit :: "rtp_config \<Rightarrow> int \<Rightarrow> rtapi_data_t \<Rightarrow> int \<times> rtapi_data_t" where
  "rtp_rtapi_exit cfg module_id d =
     (let m = module_id - MODULE_OFFSET
      in if m < 0 \<or> m \<ge> int (RTAPI_MAX_MODULES cfg) then (- 1, d)
         else (0, rtp_print_msg RTAPI_MSG_DBG
                    (d\<lparr>rtp_module_array :=
                         (rtp_module_array d)[nat m := (rtp_module_array d ! nat m)\<lparr>state := NO_MODULE\<rparr>]\<rparr>)))"

subsection \<open>The wait hook and the thread statistics (rt-preempt.c 134-172, 426-489)\<close>

text \<open>
  \<open>extra_task_data_t\<close> of rt-preempt.c with the fields these functions use
  (\<open>x_deleted\<close>, \<open>x_next_time\<close>, \<open>x_thread\<close> for \<open>deleted\<close>, \<open>next_time\<close>,
  \<open>thread\<close>). Modelled from the spec: the per-task statistics block
  \<open>rtapi_threadstatus_t\<close> of the absent header, with the fields that
  \_rtapi\_task\_update\_stats\_hook and \_rtapi\_wait\_hook write (\<open>ts_minflt\<close>,
  \<open>ts_majflt\<close>, \<open>ts_nsignals\<close>, \<open>ts_nivcsw\<close> for the \<open>ru_\<close> fields). The state
  also holds the task table, whose \<open>period\<close> field the hook reads, whether an
  exception handler is installed, and the task ids it was called with for a missed
  deadline. RTAPI\_MAX\_TASKS is a
  parameter, and RTAPI\_POSIX tells the simulator build. \<open>hook_env\<close> is what
  clock\_gettime and getrusage answer. \<open>self\<close> is the handle of the calling thread.
\<close>

record extra_task_data_t =
  x_deleted :: int
  x_next_time :: timespec
  x_thread :: nat

record thread_rusage =
  tru_utime_sec :: int
  tru_utime_usec :: int
  tru_stime_sec :: int
  tru_stime_usec :: int
  tru_minflt :: int
  tru_majflt :: int
  tru_nsignals :: int
  tru_nivcsw :: int

record rtapi_threadstatus_t =
  utime_usec :: int
  utime_sec :: int
  stime_usec :: int
  stime_sec :: int
  ts_minflt :: int
  ts_majflt :: int
  ts_nsignals :: int
  ts_nivcsw :: int
  wait_errors :: int
  num_updates :: int

record rtp_tasks =
  rtp_task_array :: "task_data list"
  extra_task_data :: "extra_task_data_t list"
  thread_status :: "rtapi_threadstatus_t list"
  rt_exception_handler :: bool
  handler_calls :: "int list"
  hook_msgs :: "msg_level list"

record hook_config =
  RTAPI_MAX_TASKS :: nat
  RTAPI_POSIX :: bool

record hook_env =
  hook_now :: timespec
  getrusage_retval :: int
  getrusage_errno :: int
  hook_rusage :: thread_rusage

text \<open>The loop of \_rtapi\_task\_self\_hook, from slot \<open>n\<close> on.\<close>

function self_scan :: "nat \<Rightarrow> nat \<Rightarrow> extra_task_data_t list \<Rightarrow> nat \<Rightarrow> int" where
  "self_scan mx n ex self =
     (if n \<le> mx
      then (if x_thread (ex ! n) = self then int n else self_scan mx (n + 1) ex self)
      else - EINVAL)"
  by pat_completeness auto
termination
  by (relation "measure (\<lambda>(mx, n, ex, self). mx + 1 - n)") auto

declare self_scan.simps [simp del]

definition rtp_task_self_hook :: "hook_config \<Rightarrow> nat \<Rightarrow> rtp_tasks \<Rightarrow> int" where
  "rtp_task_self_hook cfg self d = self_scan (RTAPI_MAX_TASKS cfg) 1 (extra_task_data d) self"

definition hook_print_msg :: "msg_level \<Rightarrow> rtp_tasks \<Rightarrow> rtp_tasks" where
  "hook_print_msg lvl d = d\<lparr>hook_msgs := hook_msgs d @ [lvl]\<rparr>"

definition rtp_task_update_stats_hook ::
  "hook_config \<Rightarrow> hook_env \<Rightarrow> nat \<Rightarrow> rtp_tasks \<Rightarrow> int \<times> rtp_tasks" where
  "rtp_task_update_stats_hook cfg env self d =
     (let task_id = rtp_task_self_hook cfg self d
      in if task_id < 0 \<or> task_id > int (RTAPI_MAX_TASKS cfg)
         then (- ENOENT, hook_print_msg RTAPI_MSG_ERR d)
         else if getrusage_retval env \<noteq> 0
         then (getrusage_errno env, hook_print_msg RTAPI_MSG_ERR d)
         else
           let ru = hook_rusage env
           in (task_id,
               d\<lparr>thread_status := (thread_status d)[nat task_id :=
                    (thread_status d ! nat task_id)
                      \<lparr>utime_usec := tru_utime_usec ru, utime_sec := tru_utime_sec ru,
                       stime_usec := tru_stime_usec ru, stime_sec := tru_stime_sec ru,
                       ts_minflt := tru_minflt ru, ts_majflt := tru_majflt ru,
                       ts_nsignals := tru_nsignals ru, ts_nivcsw := tru_nivcsw ru,
                       num_updates := num_updates (thread_status d ! nat task_id) + 1\<rparr>]\<rparr>))"

text \<open>
  \_rtapi\_wait\_hook in a thread whose task pointer is \<open>&task_array[t]\<close>: it returns
  or ends the thread.
\<close>

datatype hook_result = Hook_Returned int rtp_tasks | Hook_Thread_Exit rtp_tasks

definition rtp_wait_hook :: "hook_config \<Rightarrow> hook_env \<Rightarrow> nat \<Rightarrow> nat \<Rightarrow> rtp_tasks \<Rightarrow> hook_result" where
  "rtp_wait_hook cfg env self t d =
     (if x_deleted (extra_task_data d ! t) \<noteq> 0 then Hook_Thread_Exit d
      else
        let d1 = d\<lparr>extra_task_data := (extra_task_data d)[t :=
                     (extra_task_data d ! t)
                       \<lparr>x_next_time := rtapi_advance_time (x_next_time (extra_task_data d ! t))
                                         (scast (period (rtp_task_array d ! t))) 0\<rparr>]\<rparr>
        in if deadline_after (hook_now env) (x_next_time (extra_task_data d1 ! t))
           then
             let d2 = snd (rtp_task_update_stats_hook cfg env self d1);
                 d3 = d2\<lparr>thread_status := (thread_status d2)[t :=
                           (thread_status d2 ! t)\<lparr>wait_errors := wait_errors (thread_status d2 ! t) + 1\<rparr>]\<rparr>
             in if \<not> RTAPI_POSIX cfg \<and> rt_exception_handler d3
                then Hook_Returned 0 (d3\<lparr>handler_calls := handler_calls d3 @ [int t]\<rparr>)
                else Hook_Returned 0 d3
           else Hook_Returned 0 d1)"

section \<open>States and runs of linux\_rtapi.c\<close>

text \<open>
  The tables are static arrays, zero at program start: no slot is valid, no period is
  set, no thread has a task pointer.
\<close>

definition empty_task :: task_data where
  "empty_task =
     \<lparr>magic = 0, name = [], owner = 0, arg = 0, stacksize = 0, stackaddr = 0, destroyed = 0,
      deleted = 0, taskcode = 0, prio = 0, uses_fp = 0, cpu = 0, period = 0, ratio = 0,
      thread = 0, thread_init_barrier = None, next_time = \<lparr>tv_sec = 0, tv_nsec = 0\<rparr>,
      deadline_scheduling = 0, failures = 0, minfault_base = 0, majfault_base = 0\<rparr>"

definition init_state :: rtapi_state where
  "init_state =
     \<lparr>g_period = 0, module_array = replicate MAX_MODULES \<lparr>m_magic = 0\<rparr>,
      task_array = replicate MAX_TASKS empty_task, heap = {}, tls = Map.empty,
      joins = [], msgs = []\<rparr>"

definition wf_state :: "rtapi_state \<Rightarrow> bool" where
  "wf_state s = (length (task_array s) = MAX_TASKS \<and> length (module_array s) = MAX_MODULES)"

text \<open>The validation every task operation starts with: the range and the magic tag.\<close>

definition valid_task :: "rtapi_state \<Rightarrow> int \<Rightarrow> bool" where
  "valid_task s i = (0 \<le> i \<and> i < int MAX_TASKS \<and> magic (task_array s ! nat i) = TASK_MAGIC)"

text \<open>
  One call of an operation of the file, with what the environment answers to it; the
  last three are the steps of a task's thread (rtapi\_wait in thread \<open>tid\<close>, and
  realtime\_thread after the barrier).
\<close>

datatype op =
    Op_init "string option"
  | Op_exit int
  | Op_clock_set_period clong ulong
  | Op_task_new os_sched nat nat nat nat int int ulong int string int
  | Op_task_delete int int
  | Op_task_start start_env int ulong
  | Op_task_stop int
  | Op_task_pause int
  | Op_task_resume int
  | Op_task_set_period int ulong
  | Op_wait timespec rusage nat
  | Op_thread_seed timespec nat
  | Op_thread_end nat

fun step :: "op \<Rightarrow> rtapi_state \<Rightarrow> fault + (int \<times> rtapi_state)" where
  "step (Op_init nm) s = Inr (rtapi_init nm s)"
| "step (Op_exit h) s = Inr (rtapi_exit h s)"
| "step (Op_clock_set_period res n) s = rtapi_clock_set_period res n s"
| "step (Op_task_new os sz m tc a p ow st fp nm c) s =
     Inr (rtapi_task_new os sz m tc a p ow st fp nm c s)"
| "step (Op_task_delete e i) s = Inr (rtapi_task_delete e i s)"
| "step (Op_task_start env i n) s = rtapi_task_start env i n s"
| "step (Op_task_stop i) s = Inr (rtapi_task_stop i s)"
| "step (Op_task_pause i) s = Inr (rtapi_task_pause i s)"
| "step (Op_task_resume i) s = Inr (rtapi_task_resume i s)"
| "step (Op_task_set_period i n) s = Inr (rtapi_task_set_period i n s)"
| "step (Op_wait ts ru tid) s =
     (case rtapi_wait ts ru tid s of
        Wait_Returned r s' \<Rightarrow> Inr (r, s')
      | Wait_Thread_Exit s' \<Rightarrow> Inr (0, s')
      | Wait_Fault f \<Rightarrow> Inl f)"
| "step (Op_thread_seed ts t) s = Inr (0, realtime_thread_seed ts t s)"
| "step (Op_thread_end t) s = Inr (0, realtime_thread_end t s)"

fun run :: "op list \<Rightarrow> rtapi_state \<Rightarrow> fault + rtapi_state" where
  "run [] s = Inr s"
| "run (x # xs) s = (case step x s of Inl f \<Rightarrow> Inl f | Inr (r, s') \<Rightarrow> run xs s')"

fun deletes_task :: "int \<Rightarrow> op \<Rightarrow> bool" where
  "deletes_task i (Op_task_delete e j) = (j = i)"
| "deletes_task i x = False"

fun is_task_new :: "op \<Rightarrow> bool" where
  "is_task_new (Op_task_new os sz m tc a p ow st fp nm c) = True"
| "is_task_new x = False"



text \<open>The threads that a run starts: the handles its pthread\_create calls hand out.\<close>

fun started_threads :: "op list \<Rightarrow> nat set" where
  "started_threads [] = {}"
| "started_threads (Op_task_start env i n # xs) = insert (new_thread env) (started_threads xs)"
| "started_threads (x # xs) = started_threads xs"

text \<open>The magic tags of the task table, slot by slot.\<close>

definition magics :: "rtapi_state \<Rightarrow> int list" where
  "magics s = map magic (task_array s)"

section \<open>Notions of the statements\<close>

text \<open>
  A call of rtapi\_wait registers a deadline miss when it returns with the failure
  counter of the calling thread's task one higher.
\<close>

definition wait_registers_miss :: "timespec \<Rightarrow> rusage \<Rightarrow> nat \<Rightarrow> rtapi_state \<Rightarrow> bool" where
  "wait_registers_miss ts ru tid s =
     (case rtapi_this_task tid s of
        None \<Rightarrow> False
      | Some t \<Rightarrow>
          (case rtapi_wait ts ru tid s of
             Wait_Returned r s' \<Rightarrow> failures (task_array s' ! t) = failures (task_array s ! t) + 1
           | Wait_Thread_Exit s' \<Rightarrow> False
           | Wait_Fault f \<Rightarrow> False))"

text \<open>
  \_rtapi\_wait\_hook registers one when it returns with the \<open>wait_errors\<close> counter of
  the task one higher.
\<close>

definition hook_registers_miss :: "hook_config \<Rightarrow> hook_env \<Rightarrow> nat \<Rightarrow> nat \<Rightarrow> rtp_tasks \<Rightarrow> bool" where
  "hook_registers_miss cfg env self t d =
     (case rtp_wait_hook cfg env self t d of
        Hook_Returned r d' \<Rightarrow> wait_errors (thread_status d' ! t) = wait_errors (thread_status d ! t) + 1
      | Hook_Thread_Exit d' \<Rightarrow> False)"

text \<open>
  Following the spec's words, not the code: the requested period rounded down to the
  nearest multiple of the resolution, and floored to one resolution tick.
\<close>

definition spec_rounded_period :: "nat \<Rightarrow> nat \<Rightarrow> nat" where
  "spec_rounded_period res n = max res ((n div res) * res)"

section \<open>Example states\<close>

text \<open>
  The SCHED\_FIFO range of Linux, a table with one task created and never started, the
  table after a call of rtapi\_task\_new with priority 0, and an environment in which
  a thread starts without error.
\<close>

definition fifo_sched :: os_sched where
  "fifo_sched = \<lparr>sched_priority_max = 99, sched_priority_min = 1\<rparr>"

definition one_task_state :: rtapi_state where
  "one_task_state =
     snd (rtapi_task_new fifo_sched 32 4096 1 0 50 0 16384 0 ''servo'' 0 init_state)"

definition bad_prio_state :: rtapi_state where
  "bad_prio_state =
     snd (rtapi_task_new fifo_sched 32 4096 1 0 0 0 16384 0 ''servo'' 0 init_state)"

definition good_start :: start_env where
  "good_start =
     \<lparr>create_retval = 0, new_thread = 7, start_rusage = \<lparr>ru_minflt = 10, ru_majflt = 0\<rparr>,
      cpus_allowed = {0, 1}, setaffinity_retval = 0, setscheduler_retval = 0\<rparr>"

text \<open>The clock period set to 1 ms, then one task created and started with 0.5 ms.\<close>

definition started_state :: rtapi_state where
  "started_state =
     (case run [Op_clock_set_period 1 1000000,
                Op_task_new fifo_sched 32 4096 1 0 50 0 16384 0 ''servo'' 0,
                Op_task_start good_start 0 500000] init_state of
        Inr s \<Rightarrow> s | Inl f \<Rightarrow> init_state)"

text \<open>
  The started task after its thread has seeded \<open>next_time\<close> at 10 s; the started
  task stopped, and then deleted; a full module table; and a small rt-preempt configuration
  with an empty and a full module table.
\<close>

definition waiting_state :: rtapi_state where
  "waiting_state = realtime_thread_seed \<lparr>tv_sec = 10, tv_nsec = 0\<rparr> 0 started_state"

text \<open>
  The started task after its thread has seeded \<open>next_time\<close> at 5 s + 998000000 ns:
  the next advance by 1 ms gives a sum of exactly 1000000000 ns.
\<close>

definition slip_state :: rtapi_state where
  "slip_state = realtime_thread_seed \<lparr>tv_sec = 5, tv_nsec = 998000000\<rparr> 0 started_state"









definition full_modules_state :: rtapi_state where
  "full_modules_state =
     init_state\<lparr>module_array := replicate MAX_MODULES \<lparr>m_magic = MODULE_MAGIC\<rparr>\<rparr>"

definition small_config :: rtp_config where
  "small_config = \<lparr>RTAPI_MAX_MODULES = 2, RTAPI_NAME_LEN = 31\<rparr>"

definition rtp_empty :: rtapi_data_t where
  "rtp_empty =
     \<lparr>rtp_module_array = replicate 3 \<lparr>state = NO_MODULE, m_name = []\<rparr>,
      ul_module_count = 0, rtp_msgs = []\<rparr>"

definition rtp_full :: rtapi_data_t where
  "rtp_full =
     \<lparr>rtp_module_array =
        [\<lparr>state = NO_MODULE, m_name = []\<rparr>, \<lparr>state = REALTIME, m_name = ''a''\<rparr>,
         \<lparr>state = REALTIME, m_name = ''b''\<rparr>],
      ul_module_count = 2, rtp_msgs = []\<rparr>"

text \<open>
  An rt-preempt table with one task of period 1 ms in slot 1, run by thread 7, that
  sleeps to 10 s + 1000000 ns; and what the clock and getrusage answer 2.5 ms and
  1.5 ms after 10 s.
\<close>

definition hook_config1 :: hook_config where
  "hook_config1 = \<lparr>RTAPI_MAX_TASKS = 1, RTAPI_POSIX = False\<rparr>"

definition hook_state :: rtp_tasks where
  "hook_state =
     \<lparr>rtp_task_array = [empty_task, empty_task\<lparr>magic := TASK_MAGIC, period := 1000000\<rparr>],
      extra_task_data =
        [\<lparr>x_deleted = 0, x_next_time = \<lparr>tv_sec = 0, tv_nsec = 0\<rparr>, x_thread = 0\<rparr>,
         \<lparr>x_deleted = 0, x_next_time = \<lparr>tv_sec = 10, tv_nsec = 1000000\<rparr>, x_thread = 7\<rparr>],
      thread_status =
        replicate 2 \<lparr>utime_usec = 0, utime_sec = 0, stime_usec = 0, stime_sec = 0, ts_minflt = 0,
                      ts_majflt = 0, ts_nsignals = 0, ts_nivcsw = 0, wait_errors = 0,
                      num_updates = 0\<rparr>,
      rt_exception_handler = True, handler_calls = [], hook_msgs = []\<rparr>"

definition hook_late :: hook_env where
  "hook_late =
     \<lparr>hook_now = \<lparr>tv_sec = 10, tv_nsec = 2500000\<rparr>, getrusage_retval = 0, getrusage_errno = 0,
      hook_rusage = \<lparr>tru_utime_sec = 1, tru_utime_usec = 0, tru_stime_sec = 0, tru_stime_usec = 5,
                      tru_minflt = 10, tru_majflt = 0, tru_nsignals = 0, tru_nivcsw = 3\<rparr>\<rparr>"

definition hook_in_time :: hook_env where
  "hook_in_time = hook_late\<lparr>hook_now := \<lparr>tv_sec = 10, tv_nsec = 1500000\<rparr>\<rparr>"

text \<open>
  The rt-preempt task sleeping to 5 s + 999000000 ns, and the clock answering 6 s.
\<close>

definition hook_slip_state :: rtp_tasks where
  "hook_slip_state =
     hook_state\<lparr>extra_task_data := (extra_task_data hook_state)[1 :=
       \<lparr>x_deleted = 0, x_next_time = \<lparr>tv_sec = 5, tv_nsec = 999000000\<rparr>, x_thread = 7\<rparr>]\<rparr>"

definition hook_at_6s :: hook_env where
  "hook_at_6s = hook_late\<lparr>hook_now := \<lparr>tv_sec = 6, tv_nsec = 0\<rparr>\<rparr>"

section \<open>Properties\<close>

subsection \<open>Evaluation and example states\<close>

lemmas rtapi_consts = MAX_TASKS_def MAX_MODULES_def TASK_MAGIC_def MODULE_MAGIC_def
  MODULE_OFFSET_def ENOMEM_def EINVAL_def EMFILE_def ENOSYS_def

lemmas eval_defs = rtapi_task_new_def rtapi_task_delete_def rtapi_task_start_def
  rtapi_task_stop_def rtapi_task_pause_def rtapi_task_resume_def rtapi_task_set_period_def
  rtapi_clock_set_period_def rtapi_init_def rtapi_exit_def rtapi_wait_def
  realtime_thread_init_def realtime_set_affinity_def realtime_set_priority_def
  rtapi_reset_pagefault_count_def rtapi_get_pagefault_count_def rtapi_set_task_def
  rtapi_this_task_def realtime_thread_seed_def realtime_thread_end_def rtapi_advance_time_def
  advance_loop.simps deadline_after_def rtapi_prio_highest_def rtapi_prio_lowest_def
  upd_task_def free_def rtapi_print_msg_def task_scan.simps module_scan.simps init_state_def
  empty_task_def fifo_sched_def good_start_def CPU_ISSET_def valid_task_def Let_def

text \<open>The example states, computed.\<close>

lemma one_task_state_eq:
  "one_task_state =
     init_state\<lparr>task_array := (task_array init_state)[0 :=
        empty_task\<lparr>magic := TASK_MAGIC, stacksize := 16384, stackaddr := 4096, taskcode := 1,
          prio := 50, name := ''servo''\<rparr>], heap := {4096}, msgs := [RTAPI_MSG_DBG]\<rparr>"
  by (simp add: one_task_state_def eval_defs rtapi_consts)

lemma bad_prio_state_eq:
  "bad_prio_state =
     init_state\<lparr>task_array := (task_array init_state)[0 := empty_task\<lparr>magic := TASK_MAGIC\<rparr>],
       msgs := [RTAPI_MSG_ERR]\<rparr>"
  by (simp add: bad_prio_state_def eval_defs rtapi_consts)

lemma started_state_eq:
  "started_state =
     init_state\<lparr>g_period := 1000000,
       task_array := (task_array init_state)[0 :=
        empty_task\<lparr>magic := TASK_MAGIC, stacksize := 16384, stackaddr := 4096, taskcode := 1,
          prio := 50, name := ''servo'', period := 1000000, ratio := 1, thread := 7,
          minfault_base := 10\<rparr>],
       heap := {4096}, tls := [7 \<mapsto> 0],
       msgs := [RTAPI_MSG_DBG, RTAPI_MSG_DBG, RTAPI_MSG_DBG, RTAPI_MSG_DBG, RTAPI_MSG_DBG,
                RTAPI_MSG_DBG, RTAPI_MSG_DBG, RTAPI_MSG_DBG]\<rparr>"
  by (simp add: started_state_def eval_defs rtapi_consts)

text \<open>One late wake-up of the rt-preempt example, computed.\<close>

lemma hook_example_run:
  "rtp_wait_hook hook_config1 hook_late 7 1 hook_state =
     Hook_Returned 0
       (hook_state\<lparr>extra_task_data := (extra_task_data hook_state)[1 :=
           \<lparr>x_deleted = 0, x_next_time = \<lparr>tv_sec = 10, tv_nsec = 2000000\<rparr>, x_thread = 7\<rparr>],
         thread_status := (thread_status hook_state)[1 :=
           \<lparr>utime_usec = 0, utime_sec = 1, stime_usec = 5, stime_sec = 0, ts_minflt = 10,
            ts_majflt = 0, ts_nsignals = 0, ts_nivcsw = 3, wait_errors = 1, num_updates = 1\<rparr>],
         handler_calls := [1]\<rparr>)"
  by (simp add: rtp_wait_hook_def rtp_task_update_stats_hook_def rtp_task_self_hook_def
  self_scan.simps hook_print_msg_def hook_state_def hook_config1_def
  hook_late_def Let_def rtapi_advance_time_def advance_loop.simps deadline_after_def EINVAL_def)

lemma wf_init_state: "wf_state init_state"
  by (simp add: wf_state_def init_state_def)

lemma wf_one_task_state: "wf_state one_task_state"
  by (simp add: wf_state_def one_task_state_eq init_state_def)

lemma run_started_state:
  "run [Op_clock_set_period 1 1000000,
        Op_task_new fifo_sched 32 4096 1 0 50 0 16384 0 ''servo'' 0,
        Op_task_start good_start 0 500000] init_state = Inr started_state"
  by (simp add: started_state_eq) (simp add: eval_defs rtapi_consts)

subsection \<open>What each operation leaves unchanged\<close>

lemma magics_upd_task:
  "(\<And>x. magic (f x) = magic x) \<Longrightarrow> magics (upd_task n f s) = magics s"
  by (cases "n < length (task_array s)") (simp_all add: magics_def upd_task_def map_update list_update_same_conv list_update_beyond)

lemma length_upd_task [simp]: "length (task_array (upd_task n f s)) = length (task_array s)"
  by (simp add: upd_task_def)

lemma upd_task_frame [simp]:
  "module_array (upd_task n f s) = module_array s"
  "tls (upd_task n f s) = tls s"
  "g_period (upd_task n f s) = g_period s"
  "heap (upd_task n f s) = heap s"
  "joins (upd_task n f s) = joins s"
  "msgs (upd_task n f s) = msgs s"
  by (simp_all add: upd_task_def)

lemma print_msg_frame [simp]:
  "task_array (rtapi_print_msg l s) = task_array s"
  "module_array (rtapi_print_msg l s) = module_array s"
  "tls (rtapi_print_msg l s) = tls s"
  "g_period (rtapi_print_msg l s) = g_period s"
  "heap (rtapi_print_msg l s) = heap s"
  "joins (rtapi_print_msg l s) = joins s"
  "magics (rtapi_print_msg l s) = magics s"
  by (simp_all add: rtapi_print_msg_def magics_def)

lemma free_frame [simp]:
  "task_array (free p s) = task_array s"
  "module_array (free p s) = module_array s"
  "tls (free p s) = tls s"
  "g_period (free p s) = g_period s"
  "joins (free p s) = joins s"
  "magics (free p s) = magics s"
  by (simp_all add: free_def magics_def)

lemma nth_upd_task:
  "n < length (task_array s) \<Longrightarrow> task_array (upd_task n f s) ! k = (if k = n then f (task_array s ! n) else task_array s ! k)"
  by (simp add: upd_task_def)

lemma valid_task_magics:
  "length (task_array s) = MAX_TASKS \<Longrightarrow>
   valid_task s i = (0 \<le> i \<and> i < int MAX_TASKS \<and> magics s ! nat i = TASK_MAGIC)"
  by (auto simp add: valid_task_def magics_def)

lemma reset_pagefault_frame [simp]:
  "magics (rtapi_reset_pagefault_count ru t s) = magics s"
  "length (task_array (rtapi_reset_pagefault_count ru t s)) = length (task_array s)"
  "module_array (rtapi_reset_pagefault_count ru t s) = module_array s"
  "tls (rtapi_reset_pagefault_count ru t s) = tls s"
  "g_period (rtapi_reset_pagefault_count ru t s) = g_period s"
  by (simp_all add: rtapi_reset_pagefault_count_def Let_def magics_upd_task)

lemma get_pagefault_frame [simp]:
  "task_array (snd (rtapi_get_pagefault_count ru t s)) = task_array s"
  "module_array (snd (rtapi_get_pagefault_count ru t s)) = module_array s"
  "tls (snd (rtapi_get_pagefault_count ru t s)) = tls s"
  "g_period (snd (rtapi_get_pagefault_count ru t s)) = g_period s"
  by (simp_all add: rtapi_get_pagefault_count_def Let_def)

lemma set_affinity_frame [simp]:
  "task_array (snd (realtime_set_affinity c e t s)) = task_array s"
  "module_array (snd (realtime_set_affinity c e t s)) = module_array s"
  "tls (snd (realtime_set_affinity c e t s)) = tls s"
  "g_period (snd (realtime_set_affinity c e t s)) = g_period s"
  by (simp_all add: realtime_set_affinity_def Let_def)

lemma set_priority_frame [simp]:
  "magics (snd (realtime_set_priority e t s)) = magics s"
  "length (task_array (snd (realtime_set_priority e t s))) = length (task_array s)"
  "module_array (snd (realtime_set_priority e t s)) = module_array s"
  "tls (snd (realtime_set_priority e t s)) = tls s"
  "g_period (snd (realtime_set_priority e t s)) = g_period s"
  by (simp_all add: realtime_set_priority_def Let_def magics_upd_task)

lemma set_task_frame [simp]:
  "magics (rtapi_set_task tid t s) = magics s"
  "task_array (rtapi_set_task tid t s) = task_array s"
  "module_array (rtapi_set_task tid t s) = module_array s"
  "tls (rtapi_set_task tid t s) = (tls s)(tid \<mapsto> t)"
  "g_period (rtapi_set_task tid t s) = g_period s"
  by (simp_all add: rtapi_set_task_def magics_def)

lemma magics_set_affinity [simp]: "magics (snd (realtime_set_affinity c e t s)) = magics s"
  by (simp add: magics_def)

lemma thread_init_frame:
  assumes "realtime_thread_init env tid t s = Inr (ok, s')"
  shows "magics s' = magics s \<and> length (task_array s') = length (task_array s)
       \<and> module_array s' = module_array s \<and> tls s' = (tls s)(tid \<mapsto> t) \<and> g_period s' = g_period s"
  using assms
  by (auto simp add: realtime_thread_init_def Let_def split_beta magics_upd_task
      split: if_splits)

lemma task_start_frame:
  assumes "rtapi_task_start env i n s = Inr (r, s')"
  shows "magics s' = magics s \<and> length (task_array s') = length (task_array s)
       \<and> module_array s' = module_array s \<and> g_period s' = g_period s
       \<and> (\<forall>tid. tid \<noteq> new_thread env \<longrightarrow> tls s' tid = tls s tid)"
  using assms
  by (auto simp add: rtapi_task_start_def Let_def magics_upd_task
      split: if_splits sum.splits dest!: thread_init_frame)

lemma task_scan_bounds: "n \<le> task_scan n ta \<and> (n \<le> MAX_TASKS \<longrightarrow> task_scan n ta \<le> MAX_TASKS)"
proof (induction n ta rule: task_scan.induct)
  case (1 n ta)
  show ?case
  proof (cases "n < MAX_TASKS \<and> magic (ta ! n) = TASK_MAGIC")
    case True
    with "1.IH" show ?thesis by (subst (1 2) task_scan.simps) auto
  next
    case False
    then show ?thesis by (subst (1 2) task_scan.simps) auto
  qed
qed

lemma task_scan_free: "task_scan n ta < MAX_TASKS \<Longrightarrow> magic (ta ! task_scan n ta) \<noteq> TASK_MAGIC"
proof (induction n ta rule: task_scan.induct)
  case (1 n ta)
  show ?case
  proof (cases "n < MAX_TASKS \<and> magic (ta ! n) = TASK_MAGIC")
    case True
    with "1.IH" "1.prems" show ?thesis by (simp add: task_scan.simps [of n ta])
  next
    case False
    with "1.prems" show ?thesis by (simp add: task_scan.simps [of n ta])
  qed
qed

lemma task_scan_full: "n \<le> k \<Longrightarrow> k < task_scan n ta \<Longrightarrow> magic (ta ! k) = TASK_MAGIC"
proof (induction n ta rule: task_scan.induct)
  case (1 n ta)
  show ?case
  proof (cases "n < MAX_TASKS \<and> magic (ta ! n) = TASK_MAGIC")
    case True
    show ?thesis
    proof (cases "k = n")
      case True
      with \<open>n < MAX_TASKS \<and> magic (ta ! n) = TASK_MAGIC\<close> show ?thesis by simp
    next
      case False
      with "1.prems" have "n + 1 \<le> k" by simp
      moreover from "1.prems" True have "k < task_scan (n + 1) ta" by (simp add: task_scan.simps [of n ta])
      ultimately show ?thesis using "1.IH" True by blast
    qed
  next
    case False
    with "1.prems" show ?thesis by (simp add: task_scan.simps [of n ta])
  qed
qed

lemma task_new_frame:
  assumes "length (task_array s) = MAX_TASKS"
      and "rtapi_task_new os sz m tc a p ow st fp nm c s = (r, s')"
  shows "length (task_array s') = length (task_array s) \<and> module_array s' = module_array s
       \<and> tls s' = tls s \<and> g_period s' = g_period s
       \<and> (\<forall>k. magic (task_array s ! k) = TASK_MAGIC \<longrightarrow> magic (task_array s' ! k) = TASK_MAGIC)
       \<and> (0 \<le> r \<longrightarrow> valid_task s' r \<and> \<not> valid_task s r)
       \<and> r < int MAX_TASKS"
proof -
  let ?n = "task_scan 0 (task_array s)"
  have le: "?n \<le> MAX_TASKS" using task_scan_bounds [of 0 "task_array s"] by simp
  have fr: "?n < MAX_TASKS \<Longrightarrow> magic (task_array s ! ?n) \<noteq> TASK_MAGIC"
    by (rule task_scan_free)
  show ?thesis
    using assms le fr
    by (auto simp add: rtapi_task_new_def Let_def valid_task_def nth_upd_task ENOMEM_def EINVAL_def
        split: if_splits)
qed

lemma task_delete_frame:
  assumes "length (task_array s) = MAX_TASKS"
      and "rtapi_task_delete e i s = (r, s')"
  shows "length (task_array s') = length (task_array s) \<and> module_array s' = module_array s
       \<and> tls s' = tls s \<and> g_period s' = g_period s
       \<and> (\<forall>k. k \<noteq> i \<longrightarrow> valid_task s' k = valid_task s k)
       \<and> (valid_task s i \<longrightarrow> r = 0 \<and> \<not> valid_task s' i)
       \<and> (\<not> valid_task s i \<longrightarrow> r = - EINVAL \<and> s' = s)"
  using assms
  by (auto simp add: rtapi_task_delete_def Let_def valid_task_def nth_upd_task TASK_MAGIC_def
      split: if_splits)

lemma wait_frame:
  assumes "rtapi_wait ts ru tid s = Wait_Returned r s' \<or> rtapi_wait ts ru tid s = Wait_Thread_Exit s'"
  shows "magics s' = magics s \<and> length (task_array s') = length (task_array s)
       \<and> module_array s' = module_array s \<and> tls s' = tls s \<and> g_period s' = g_period s"
  using assms
  by (auto simp add: rtapi_wait_def Let_def magics_upd_task magics_def [of "rtapi_print_msg _ _"]
        magics_def [of "snd (rtapi_get_pagefault_count _ _ _)"] magics_def [of "upd_task _ _ _", symmetric]
      split: option.splits if_splits)

lemma init_frame:
  "task_array (snd (rtapi_init nm s)) = task_array s \<and> tls (snd (rtapi_init nm s)) = tls s
   \<and> g_period (snd (rtapi_init nm s)) = g_period s
   \<and> length (module_array (snd (rtapi_init nm s))) = length (module_array s)"
  by (simp add: rtapi_init_def Let_def)

lemma exit_frame:
  "task_array (snd (rtapi_exit h s)) = task_array s \<and> tls (snd (rtapi_exit h s)) = tls s
   \<and> g_period (snd (rtapi_exit h s)) = g_period s
   \<and> length (module_array (snd (rtapi_exit h s))) = length (module_array s)"
  by (simp add: rtapi_exit_def Let_def)

lemma clock_set_period_frame:
  "rtapi_clock_set_period res n s = Inr (r, s') \<Longrightarrow>
   task_array s' = task_array s \<and> tls s' = tls s \<and> module_array s' = module_array s"
  by (auto simp add: rtapi_clock_set_period_def Let_def split: if_splits)

lemma task_misc_frame:
  "magics (snd (rtapi_task_stop i s)) = magics s"
  "magics (snd (rtapi_task_pause i s)) = magics s"
  "magics (snd (rtapi_task_resume i s)) = magics s"
  "magics (snd (rtapi_task_set_period i n s)) = magics s"
  "magics (realtime_thread_seed ts t s) = magics s"
  "magics (realtime_thread_end t s) = magics s"
  by (simp_all add: rtapi_task_stop_def rtapi_task_pause_def rtapi_task_resume_def
      rtapi_task_set_period_def realtime_thread_seed_def realtime_thread_end_def magics_upd_task)

lemma task_misc_frame2:
  "length (task_array (snd (rtapi_task_stop i s))) = length (task_array s)
   \<and> module_array (snd (rtapi_task_stop i s)) = module_array s \<and> tls (snd (rtapi_task_stop i s)) = tls s"
  "length (task_array (snd (rtapi_task_pause i s))) = length (task_array s)
   \<and> module_array (snd (rtapi_task_pause i s)) = module_array s \<and> tls (snd (rtapi_task_pause i s)) = tls s"
  "length (task_array (snd (rtapi_task_resume i s))) = length (task_array s)
   \<and> module_array (snd (rtapi_task_resume i s)) = module_array s \<and> tls (snd (rtapi_task_resume i s)) = tls s"
  "length (task_array (snd (rtapi_task_set_period i n s))) = length (task_array s)
   \<and> module_array (snd (rtapi_task_set_period i n s)) = module_array s \<and> tls (snd (rtapi_task_set_period i n s)) = tls s"
  "length (task_array (realtime_thread_seed ts t s)) = length (task_array s)
   \<and> module_array (realtime_thread_seed ts t s) = module_array s \<and> tls (realtime_thread_seed ts t s) = tls s"
  "length (task_array (realtime_thread_end t s)) = length (task_array s)
   \<and> module_array (realtime_thread_end t s) = module_array s \<and> tls (realtime_thread_end t s) = tls s"
  by (simp_all add: rtapi_task_stop_def rtapi_task_pause_def rtapi_task_resume_def
      rtapi_task_set_period_def realtime_thread_seed_def realtime_thread_end_def)

lemma frame_valid:
  assumes "wf_state s" and "magics s' = magics s" and "length (task_array s') = length (task_array s)"
      and "module_array s' = module_array s"
  shows "wf_state s' \<and> valid_task s' i = valid_task s i"
  using assms by (simp add: wf_state_def valid_task_magics)

lemma step_frame:
  assumes wf: "wf_state s" and st: "step x s = Inr (r, s')"
  shows "wf_state s'
       \<and> (valid_task s i \<and> \<not> deletes_task i x \<longrightarrow> valid_task s' i)
       \<and> (\<not> valid_task s i \<and> \<not> is_task_new x \<longrightarrow> \<not> valid_task s' i)
       \<and> (tid \<notin> started_threads [x] \<longrightarrow> tls s' tid = tls s tid)"
proof (cases x)
  case (Op_init nm)
  with wf st init_frame [of nm s] show ?thesis
    by (auto simp add: wf_state_def valid_task_def)
next
  case (Op_exit h)
  with wf st exit_frame [of h s] show ?thesis
    by (auto simp add: wf_state_def valid_task_def)
next
  case (Op_clock_set_period res n)
  with wf st clock_set_period_frame [of res n s r s'] show ?thesis
    by (auto simp add: wf_state_def valid_task_def)
next
  case (Op_task_new os sz m tc a p ow st' fp nm c)
  with wf st task_new_frame [of s os sz m tc a p ow st' fp nm c r s'] show ?thesis
    by (auto simp add: wf_state_def valid_task_def)
next
  case (Op_task_delete e j)
  with st have td: "rtapi_task_delete e j s = (r, s')" by simp
  from wf have len: "length (task_array s) = MAX_TASKS" by (simp add: wf_state_def)
  note fr = task_delete_frame [OF len td]
  from fr wf have wf': "wf_state s'" by (simp add: wf_state_def)
  have keep: "valid_task s' i = valid_task s i" if "j \<noteq> i"
    using fr that by metis
  have gone: "\<not> valid_task s' i" if "j = i"
    using fr that by (cases "valid_task s i") auto
  from wf' keep gone fr Op_task_delete show ?thesis
    by (cases "j = i") simp_all
next
  case (Op_task_start env j n)
  with st have ts: "rtapi_task_start env j n s = Inr (r, s')" by simp
  note fr = task_start_frame [OF ts]
  from frame_valid [OF wf, of s' i] fr Op_task_start show ?thesis by simp
next
  case (Op_task_stop j)
  with st have s': "s' = snd (rtapi_task_stop j s)" by auto
  from frame_valid [OF wf, of s' i] task_misc_frame(1) [of j s] task_misc_frame2(1) [of j s] s' Op_task_stop
  show ?thesis by simp
next
  case (Op_task_pause j)
  with st have s': "s' = snd (rtapi_task_pause j s)" by auto
  from frame_valid [OF wf, of s' i] task_misc_frame(2) [of j s] task_misc_frame2(2) [of j s] s' Op_task_pause
  show ?thesis by simp
next
  case (Op_task_resume j)
  with st have s': "s' = snd (rtapi_task_resume j s)" by auto
  from frame_valid [OF wf, of s' i] task_misc_frame(3) [of j s] task_misc_frame2(3) [of j s] s' Op_task_resume
  show ?thesis by simp
next
  case (Op_task_set_period j n)
  with st have s': "s' = snd (rtapi_task_set_period j n s)" by auto
  from frame_valid [OF wf, of s' i] task_misc_frame(4) [of j n s] task_misc_frame2(4) [of j n s] s'
    Op_task_set_period
  show ?thesis by simp
next
  case (Op_wait ts ru w)
  with st have "rtapi_wait ts ru w s = Wait_Returned r s' \<or> rtapi_wait ts ru w s = Wait_Thread_Exit s'"
    by (auto split: wait_result.splits)
  from wait_frame [OF this] frame_valid [OF wf, of s' i] Op_wait show ?thesis
    by simp
next
  case (Op_thread_seed ts t)
  with st have s': "s' = realtime_thread_seed ts t s" by auto
  from frame_valid [OF wf, of s' i] task_misc_frame(5) [of ts t s] task_misc_frame2(5) [of ts t s] s'
    Op_thread_seed
  show ?thesis by simp
next
  case (Op_thread_end t)
  with st have s': "s' = realtime_thread_end t s" by auto
  from frame_valid [OF wf, of s' i] task_misc_frame(6) [of t s] task_misc_frame2(6) [of t s] s'
    Op_thread_end
  show ?thesis by simp
qed

lemma started_threads_Cons: "started_threads (x # xs) = started_threads [x] \<union> started_threads xs"
  by (cases x) simp_all

lemma run_frame:
  "wf_state s \<Longrightarrow> run xs s = Inr s' \<Longrightarrow>
     wf_state s'
     \<and> (valid_task s i \<and> (\<forall>x \<in> set xs. \<not> deletes_task i x) \<longrightarrow> valid_task s' i)
     \<and> (\<not> valid_task s i \<and> (\<forall>x \<in> set xs. \<not> is_task_new x) \<longrightarrow> \<not> valid_task s' i)
     \<and> (tid \<notin> started_threads xs \<longrightarrow> tls s' tid = tls s tid)"
proof (induction xs arbitrary: s)
  case Nil
  then show ?case by simp
next
  case (Cons x xs)
  from Cons.prems(2) obtain r s1 where st: "step x s = Inr (r, s1)" and rn: "run xs s1 = Inr s'"
    by (auto split: sum.splits)
  from step_frame [OF Cons.prems(1) st, of i tid] Cons.IH [OF _ rn] 
  show ?case
    by (subst started_threads_Cons) auto
qed

lemma upd_task_same:
  "f (task_array s ! n) = task_array s ! n \<Longrightarrow> upd_task n f s = s"
  by (simp add: upd_task_def)

lemma wait_null: "tls s tid = None \<Longrightarrow> rtapi_wait ts ru tid s = Wait_Fault NullDeref"
  by (simp add: rtapi_wait_def rtapi_this_task_def)

subsection \<open>Rounding, scans and validation\<close>

lemma waiting_state_eq:
  "waiting_state =
     init_state\<lparr>g_period := 1000000,
       task_array := (task_array init_state)[0 :=
        empty_task\<lparr>magic := TASK_MAGIC, stacksize := 16384, stackaddr := 4096, taskcode := 1,
          prio := 50, name := ''servo'', period := 1000000, ratio := 1, thread := 7,
          minfault_base := 10, next_time := \<lparr>tv_sec = 10, tv_nsec = 1000000\<rparr>\<rparr>],
       heap := {4096}, tls := [7 \<mapsto> 0],
       msgs := [RTAPI_MSG_DBG, RTAPI_MSG_DBG, RTAPI_MSG_DBG, RTAPI_MSG_DBG, RTAPI_MSG_DBG,
                RTAPI_MSG_DBG, RTAPI_MSG_DBG, RTAPI_MSG_DBG]\<rparr>"
  by (simp add: waiting_state_def started_state_eq) (simp add: eval_defs rtapi_consts)

lemma sint_ucast_small:
  fixes w :: "64 word"
  assumes "unat w \<le> 2147483647"
  shows "sint (ucast w :: 32 word) = int (unat w)"
proof -
  have u: "uint w = int (unat w)" by simp
  have lo: "- (2 ^ 31) \<le> uint w"
    by (rule order_trans [of _ 0]) simp_all
  have hi: "uint w < 2 ^ 31" using assms by (simp add: u del: of_nat_unat)
  have "sint (ucast w :: 32 word) = signed_take_bit 31 (uint w)"
    by (simp add: signed_ucast_eq)
  also have "\<dots> = uint w"
    using lo hi by (rule signed_take_bit_int_eq_self)
  finally show ?thesis by simp
qed

lemma unat_round:
  fixes n res :: "64 word"
  shows "unat ((n div res) * res) = (unat n div unat res) * unat res"
  by (metis (no_types, lifting) le_unat_uoi mult.commute times_div_less_eq_dividend unat_div
      word_arith_nat_mult)

lemma clock_set_period_first:
  fixes n res :: "64 word"
  assumes res: "res \<noteq> 0" and n: "n \<noteq> 0" and unset: "g_period s = 0"
      and small: "spec_rounded_period (unat res) (unat n) \<le> 2147483647"
  shows "\<exists>s'. rtapi_clock_set_period res n s = Inr (int (spec_rounded_period (unat res) (unat n)), s')
            \<and> sint (g_period s') = int (spec_rounded_period (unat res) (unat n))"
proof -
  define R where "R = (unat n div unat res) * unat res"
  define r where "r = (n div res) * res"
  define p' :: "32 word" where "p' = (if sint (ucast r :: 32 word) < 1 then ucast res else ucast r)"
  have spec: "spec_rounded_period (unat res) (unat n) = max (unat res) R"
    by (simp add: spec_rounded_period_def R_def)
  have R: "unat r = R" unfolding r_def R_def by (rule unat_round)
  from small spec have Rs: "R \<le> 2147483647" and ress: "unat res \<le> 2147483647"
    by simp_all
  have sp: "sint (ucast r :: 32 word) = int R"
    using sint_ucast_small [of r] Rs R by simp
  have sres: "sint (ucast res :: 32 word) = int (unat res)"
    using sint_ucast_small [of res] ress by simp
  have run: "rtapi_clock_set_period res n s
               = Inr (sint p', rtapi_print_msg RTAPI_MSG_DBG (s\<lparr>g_period := p'\<rparr>))"
    using res n unset by (simp add: rtapi_clock_set_period_def Let_def p'_def r_def)
  have "sint p' = int (max (unat res) R)"
  proof (cases "R = 0")
    case True
    with sp sres show ?thesis by (simp add: p'_def del: of_nat_unat)
  next
    case False
    then have "unat n div unat res \<noteq> 0" by (auto simp add: R_def)
    then have "unat res \<le> R" unfolding R_def by (cases "unat n div unat res") simp_all
    then have "max (unat res) R = R" by simp
    with False sp show ?thesis by (simp add: p'_def del: of_nat_unat)
  qed
  with run spec show ?thesis by (simp add: rtapi_print_msg_def del: of_nat_unat)
qed

lemma module_scan_first:
  "n \<le> k \<Longrightarrow> k < MAX_MODULES \<Longrightarrow> m_magic (ma ! k) \<noteq> MODULE_MAGIC \<Longrightarrow>
   (\<forall>j. n \<le> j \<and> j < k \<longrightarrow> m_magic (ma ! j) = MODULE_MAGIC) \<Longrightarrow> module_scan n ma = k"
proof (induction n ma rule: module_scan.induct)
  case (1 n ma)
  show ?case
  proof (cases "n = k")
    case True
    with "1.prems" show ?thesis by (simp add: module_scan.simps [of k ma])
  next
    case False
    with "1.prems" have lt: "n < k" and used: "m_magic (ma ! n) = MODULE_MAGIC" by auto
    with "1.prems" have "module_scan (n + 1) ma = k"
      by (intro "1.IH") auto
    with lt used "1.prems" show ?thesis by (simp add: module_scan.simps [of n ma])
  qed
qed

lemma module_scan_full:
  "n \<le> MAX_MODULES \<Longrightarrow> (\<forall>j. n \<le> j \<and> j < MAX_MODULES \<longrightarrow> m_magic (ma ! j) = MODULE_MAGIC) \<Longrightarrow>
   module_scan n ma = MAX_MODULES"
proof (induction n ma rule: module_scan.induct)
  case (1 n ma)
  show ?case
  proof (cases "n < MAX_MODULES")
    case True
    with "1.prems" have used: "m_magic (ma ! n) = MODULE_MAGIC" by auto
    with True "1.prems" have "module_scan (n + 1) ma = MAX_MODULES"
      by (intro "1.IH") auto
    with True used show ?thesis by (simp add: module_scan.simps [of n ma])
  next
    case False
    with "1.prems" show ?thesis by (subst module_scan.simps) simp
  qed
qed

lemma rtp_module_scan_first:
  "n \<le> k \<Longrightarrow> k \<le> mx \<Longrightarrow> state (ma ! k) = NO_MODULE \<Longrightarrow>
   (\<forall>j. n \<le> j \<and> j < k \<longrightarrow> state (ma ! j) \<noteq> NO_MODULE) \<Longrightarrow> rtp_module_scan mx n ma = k"
proof (induction mx n ma rule: rtp_module_scan.induct)
  case (1 mx n ma)
  show ?case
  proof (cases "n = k")
    case True
    with "1.prems" show ?thesis by (simp add: rtp_module_scan.simps [of mx k ma])
  next
    case False
    with "1.prems" have lt: "n < k" and used: "state (ma ! n) \<noteq> NO_MODULE" by auto
    with "1.prems" have "rtp_module_scan mx (n + 1) ma = k"
      by (intro "1.IH") auto
    with lt used "1.prems" show ?thesis by (simp add: rtp_module_scan.simps [of mx n ma])
  qed
qed

lemma rtp_module_scan_full:
  "n \<le> mx + 1 \<Longrightarrow> (\<forall>j. n \<le> j \<and> j \<le> mx \<longrightarrow> state (ma ! j) \<noteq> NO_MODULE) \<Longrightarrow>
   rtp_module_scan mx n ma = mx + 1"
proof (induction mx n ma rule: rtp_module_scan.induct)
  case (1 mx n ma)
  show ?case
  proof (cases "n \<le> mx")
    case True
    with "1.prems" have used: "state (ma ! n) \<noteq> NO_MODULE" by auto
    with True "1.prems" have "rtp_module_scan mx (n + 1) ma = mx + 1"
      by (intro "1.IH") auto
    with True used show ?thesis by (simp add: rtp_module_scan.simps [of mx n ma])
  next
    case False
    with "1.prems" show ?thesis by (subst rtp_module_scan.simps) simp
  qed
qed






text \<open>
  \_rtapi\_exit of rt-preempt.c checks the range 0..RTAPI\_MAX\_MODULES - 1, so the handle
  of slot RTAPI\_MAX\_MODULES, the last that \_rtapi\_init hands out, is refused.
\<close>

lemma rtp_exit_last_slot:
  "rtp_rtapi_exit cfg (int (RTAPI_MAX_MODULES cfg) + MODULE_OFFSET) d = (- 1, d)"
  by (simp add: rtp_rtapi_exit_def)

lemma update_stats_frame:
  "extra_task_data (snd (rtp_task_update_stats_hook cfg env self d)) = extra_task_data d
   \<and> length (thread_status (snd (rtp_task_update_stats_hook cfg env self d))) = length (thread_status d)
   \<and> wait_errors (thread_status (snd (rtp_task_update_stats_hook cfg env self d)) ! t)
       = wait_errors (thread_status d ! t)"
  by (cases "nat (rtp_task_self_hook cfg self d) = t"; cases "t < length (thread_status d)")
     (simp_all add: rtp_task_update_stats_hook_def Let_def hook_print_msg_def list_update_beyond)

subsection \<open>Time arithmetic: the advance and the deadline test\<close>

lemma sint_small:
  fixes w :: "64 word"
  assumes "unat w < 2 ^ 63"
  shows "sint w = int (unat w)"
proof -
  have u: "uint w = int (unat w)" by simp
  have lo: "- (2 ^ 63) \<le> uint w" by (rule order_trans [of _ 0]) simp_all
  from assms have "int (unat w) < 2 ^ 63" by (simp del: of_nat_unat)
  with u have hi: "uint w < 2 ^ 63" by (simp del: of_nat_unat)
  have "sint w = signed_take_bit 63 (uint w)" by (simp add: sint_uint)
  also have "\<dots> = uint w" using lo hi by (rule signed_take_bit_int_eq_self)
  finally show ?thesis by simp
qed

lemma unat_nonneg:
  fixes w :: "64 word"
  assumes "0 \<le> sint w"
  shows "int (unat w) = sint w"
proof -
  have "sint w < 2 ^ 63" using sint_lt [of w] by simp
  then have lt: "sint w < 2 ^ 64" by simp
  have "uint w = take_bit 64 (sint w)" by (simp add: uint_sint)
  also have "\<dots> = sint w" using assms lt by (simp add: take_bit_int_eq_self)
  finally show ?thesis by simp
qed

lemma unat_scast_nonneg:
  fixes p :: "32 word"
  assumes "0 \<le> sint p"
  shows "int (unat (scast p :: 64 word)) = sint p"
proof -
  have "sint (scast p :: 64 word) = sint p" by (rule sint_up_scast) (simp add: is_up)
  with assms unat_nonneg [of "scast p"] show ?thesis by simp
qed

lemma sint_add_small:
  fixes w :: "64 word"
  assumes "sint w + 4 < 2 ^ 63" and "k \<le> 3"
  shows "sint (w + of_nat k) = sint w + int k"
proof -
  from assms(2) have "unat (of_nat k :: 64 word) = k"
    by (simp add: unsigned_of_nat take_bit_nat_eq_self)
  with assms(2) have k: "sint (of_nat k :: 64 word) = int k"
    using sint_small [of "of_nat k"] by simp
  have lo: "- (2 ^ 63) \<le> sint w + int k" using sint_ge [of w] by simp
  have hi: "sint w + int k < 2 ^ 63" using assms by simp
  have "sint (w + of_nat k) = signed_take_bit 63 (sint w + sint (of_nat k :: 64 word))"
    by (simp add: sint_word_ariths)
  also have "\<dots> = sint w + int k" unfolding k using lo hi by (rule signed_take_bit_int_eq_self)
  finally show ?thesis .
qed

text \<open>
  What the carry loop returns: at most 1000000000 nanoseconds, and one second more
  for each 1000000000 it took off.
\<close>

lemma advance_loop_carry:
  "advance_loop ns s = (ns', s') \<Longrightarrow>
   unat ns' \<le> 1000000000 \<and> (\<exists>k. unat ns = unat ns' + k * 1000000000 \<and> s' = s + of_nat k)"
proof (induction ns s rule: advance_loop.induct)
  case (1 ns s)
  show ?case
  proof (cases "ns > 1000000000")
    case True
    with "1.prems" have rec: "advance_loop (ns - 1000000000) (s + 1) = (ns', s')"
      by (simp add: advance_loop.simps [of ns s])
    from True have u: "unat (ns - 1000000000) = unat ns - 1000000000"
      by (simp add: unat_sub word_le_nat_alt word_less_nat_alt)
    from True have big: "1000000000 < unat ns" by (simp add: word_less_nat_alt)
    from "1.IH" [OF True rec] obtain k where
      le: "unat ns' \<le> 1000000000" and
      k: "unat (ns - 1000000000) = unat ns' + k * 1000000000" and s': "s' = s + 1 + of_nat k"
      by blast
    from k u big have "unat ns = unat ns' + Suc k * 1000000000" by simp
    moreover from s' have "s' = s + of_nat (Suc k)" by simp
    ultimately show ?thesis using le by blast
  next
    case False
    with "1.prems" have "ns' = ns" and "s' = s" by (simp_all add: advance_loop.simps [of ns s])
    moreover from False have "unat ns \<le> 1000000000" by (simp add: word_less_nat_alt not_less)
    ultimately show ?thesis by (intro conjI exI [of _ 0]) simp_all
  qed
qed

lemma advance_time_nsec_range:
  "0 \<le> sint (tv_nsec (rtapi_advance_time tv ns s))
   \<and> sint (tv_nsec (rtapi_advance_time tv ns s)) \<le> 1000000000"
proof -
  obtain ns' s' where al: "advance_loop (ns + tv_nsec tv) s = (ns', s')"
    by (cases "advance_loop (ns + tv_nsec tv) s")
  from advance_loop_carry [OF al] have le: "unat ns' \<le> 1000000000" by simp
  then have "unat ns' < 2 ^ 63" by simp
  then have "sint ns' = int (unat ns')" by (rule sint_small)
  with le al show ?thesis by (simp add: rtapi_advance_time_def del: of_nat_unat)
qed

lemma advance_time_value:
  fixes p :: "32 word"
  assumes n0: "0 \<le> sint (tv_nsec tv)" and n1: "sint (tv_nsec tv) \<le> 1000000000"
      and p0: "0 \<le> sint p" and sec: "sint (tv_sec tv) + 4 < 2 ^ 63"
  shows "timespec_ns (rtapi_advance_time tv (scast p) 0) = timespec_ns tv + sint p"
proof -
  obtain ns' s' where al: "advance_loop (scast p + tv_nsec tv) 0 = (ns', s')"
    by (cases "advance_loop (scast p + tv_nsec tv) 0")
  from advance_loop_carry [OF al] obtain k where le: "unat ns' \<le> 1000000000"
    and k: "unat (scast p + tv_nsec tv) = unat ns' + k * 1000000000" and s': "s' = of_nat k"
    by auto
  have up: "int (unat (scast p :: 64 word)) = sint p" using p0 by (rule unat_scast_nonneg)
  have un: "int (unat (tv_nsec tv)) = sint (tv_nsec tv)" using n0 by (rule unat_nonneg)
  have pl: "sint p < 2147483648" using sint_lt [of p] by simp
  from up pl have upl: "unat (scast p :: 64 word) < 2147483648" by linarith
  from un n1 have unl: "unat (tv_nsec tv) \<le> 1000000000" by linarith
  from upl unl have sum: "unat (scast p + tv_nsec tv) = unat (scast p :: 64 word) + unat (tv_nsec tv)"
    by (intro unat_add_lem [THEN iffD1]) simp
  from sum k upl unl have k3: "k \<le> 3" by simp
  from sum k up un have tot: "int (unat ns') + int k * 1000000000 = sint p + sint (tv_nsec tv)"
    by linarith
  from le have "unat ns' < 2 ^ 63" by simp
  then have sn: "sint ns' = int (unat ns')" by (rule sint_small)
  have ss: "sint (tv_sec tv + of_nat k) = sint (tv_sec tv) + int k"
    using sec k3 by (rule sint_add_small)
  have "rtapi_advance_time tv (scast p) 0 = tv\<lparr>tv_nsec := ns', tv_sec := tv_sec tv + of_nat k\<rparr>"
    using al s' by (simp add: rtapi_advance_time_def)
  then have "timespec_ns (rtapi_advance_time tv (scast p) 0)
               = (sint (tv_sec tv) + int k) * 1000000000 + int (unat ns')"
    using sn ss by (simp add: timespec_ns_def del: of_nat_unat)
  with tot show ?thesis by (simp add: timespec_ns_def algebra_simps del: of_nat_unat)
qed

text \<open>
  The test of lines 626-628 looks at the seconds first. Against a \<open>next_time\<close> with
  at most 1000000000 nanoseconds it is the comparison of the two times, but for a
  \<open>next_time\<close> of exactly 1000000000 nanoseconds, where the equal time counts as later.
\<close>

lemma deadline_after_ns:
  assumes "0 \<le> sint (tv_nsec ts)" and "sint (tv_nsec ts) < 1000000000"
      and "0 \<le> sint (tv_nsec nt)" and "sint (tv_nsec nt) \<le> 1000000000"
  shows "deadline_after ts nt
           = (timespec_ns nt < timespec_ns ts
              \<or> (sint (tv_nsec nt) = 1000000000 \<and> timespec_ns ts = timespec_ns nt))"
proof -
  have eq: "(tv_sec ts = tv_sec nt) = (sint (tv_sec ts) = sint (tv_sec nt))"
    by (auto intro: signed_word_eqI)
  show ?thesis
    unfolding deadline_after_def timespec_ns_def eq
    using assms by (cases "sint (tv_sec ts)" "sint (tv_sec nt)" rule: linorder_cases) auto
qed

lemma wait_advance_then_test:
  assumes "rtapi_this_task tid s = Some t" and "t < length (task_array s)"
      and "deleted (task_array s ! t) = 0"
  shows "(\<exists>s'. rtapi_wait ts ru tid s = Wait_Returned 0 s'
             \<and> next_time (task_array s' ! t)
                 = rtapi_advance_time (next_time (task_array s ! t)) (scast (period (task_array s ! t))) 0)
       \<and> wait_registers_miss ts ru tid s
           = deadline_after ts
               (rtapi_advance_time (next_time (task_array s ! t)) (scast (period (task_array s ! t))) 0)"
  using assms
  by (auto simp add: wait_registers_miss_def rtapi_wait_def Let_def nth_upd_task)

lemma hook_advance_then_test:
  assumes "u < length (extra_task_data d)" and "u < length (thread_status d)"
      and "x_deleted (extra_task_data d ! u) = 0"
  shows "(\<exists>d'. rtp_wait_hook cfg env self u d = Hook_Returned 0 d'
             \<and> x_next_time (extra_task_data d' ! u)
                 = rtapi_advance_time (x_next_time (extra_task_data d ! u))
                     (scast (period (rtp_task_array d ! u))) 0)
       \<and> hook_registers_miss cfg env self u d
           = deadline_after (hook_now env)
               (rtapi_advance_time (x_next_time (extra_task_data d ! u))
                  (scast (period (rtp_task_array d ! u))) 0)"
  using assms update_stats_frame [of cfg env self _ u]
  by (auto simp add: hook_registers_miss_def rtp_wait_hook_def Let_def)

lemma slip_state_eq:
  "slip_state =
     init_state\<lparr>g_period := 1000000,
       task_array := (task_array init_state)[0 :=
        empty_task\<lparr>magic := TASK_MAGIC, stacksize := 16384, stackaddr := 4096, taskcode := 1,
          prio := 50, name := ''servo'', period := 1000000, ratio := 1, thread := 7,
          minfault_base := 10, next_time := \<lparr>tv_sec = 5, tv_nsec = 999000000\<rparr>\<rparr>],
       heap := {4096}, tls := [7 \<mapsto> 0],
       msgs := [RTAPI_MSG_DBG, RTAPI_MSG_DBG, RTAPI_MSG_DBG, RTAPI_MSG_DBG, RTAPI_MSG_DBG,
                RTAPI_MSG_DBG, RTAPI_MSG_DBG, RTAPI_MSG_DBG]\<rparr>"
  by (simp add: slip_state_def started_state_eq) (simp add: eval_defs rtapi_consts)

subsection \<open>A slot after rtapi\_task\_delete\<close>





subsection \<open>The claims\<close>

text \<open>
  C1. The claim: a call of task\_new whose priority lies outside [lowest, highest]
  returns the invalid-argument error, frees the stack and releases the slot it
  reserved, so that a later task\_new can obtain it. The code does not meet it: on
  the empty table, with the range 1..99 and priority 0, rtapi\_task\_new returns
  -EINVAL and the stack is freed, but slot 0 keeps TASK\_MAGIC; it is valid
  afterwards, and the next rtapi\_task\_new, with priority 50, gets slot 1.
\<close>

theorem task_new_invalid_priority_keeps_slot:
  "fst (rtapi_task_new fifo_sched 32 4096 1 0 0 0 16384 0 ''servo'' 0 init_state) = - EINVAL
   \<and> heap bad_prio_state = heap init_state
   \<and> magic (task_array init_state ! 0) = 0
   \<and> magic (task_array bad_prio_state ! 0) = TASK_MAGIC
   \<and> valid_task bad_prio_state 0
   \<and> fst (rtapi_task_new fifo_sched 32 8192 1 0 50 0 16384 0 ''servo'' 0 bad_prio_state) = 1"
  by (simp add: bad_prio_state_eq) (simp add: eval_defs rtapi_consts)

text \<open>
  C2. The claim: after the sleep, the deadline-miss test of wait() compares the
  current time with next\_wake as it was before the advance, and a miss is registered
  exactly when now exceeds that deadline. It does not hold as stated: rtapi\_wait
  advances \<open>next_time\<close> first and compares with the advanced value. The task of
  \<open>waiting_state\<close> sleeps to 10 s + 1000000 ns and wakes at 10 s + 1500000 ns,
  500000 ns after that deadline, and no miss is registered.
\<close>

theorem wait_miss_counterexample:
  "rtapi_this_task 7 waiting_state = Some 0
   \<and> next_time (task_array waiting_state ! 0) = \<lparr>tv_sec = 10, tv_nsec = 1000000\<rparr>
   \<and> timespec_ns (next_time (task_array waiting_state ! 0)) = 10001000000
   \<and> timespec_ns \<lparr>tv_sec = 10, tv_nsec = 1500000\<rparr> = 10001500000
   \<and> \<not> wait_registers_miss \<lparr>tv_sec = 10, tv_nsec = 1500000\<rparr> \<lparr>ru_minflt = 10, ru_majflt = 0\<rparr> 7 waiting_state"
  by (simp add: waiting_state_eq)
     (simp add: wait_registers_miss_def timespec_ns_def eval_defs rtapi_consts)

text \<open>
  C2, amended: in a thread bound to a task that is not deleted, whose \<open>next_time\<close>
  holds 0 to 1000000000 nanoseconds and whose period is not negative, and with the
  clock answering a normalised time (0 to 999999999 nanoseconds), rtapi\_wait of
  linux\_rtapi.c and \_rtapi\_wait\_hook of rt-preempt.c return 0 with \<open>next_time\<close>
  later by the period, and the test is against this advanced value, not the deadline
  slept to. The test looks at the seconds first, then at the nanoseconds: a miss is
  registered exactly when the time read after the sleep is later than the advanced
  \<open>next_time\<close>, or is equal to it where the advance has left 1000000000 in
  \<open>tv_nsec\<close>, the sum that the carry loop does not carry.
\<close>

theorem wait_miss_against_advanced:
  "(rtapi_this_task tid s = Some t \<and> t < length (task_array s)
      \<and> deleted (task_array s ! t) = 0
      \<and> 0 \<le> sint (tv_nsec (next_time (task_array s ! t)))
      \<and> sint (tv_nsec (next_time (task_array s ! t))) \<le> 1000000000
      \<and> sint (tv_sec (next_time (task_array s ! t))) + 4 < 2 ^ 63
      \<and> 0 \<le> sint (period (task_array s ! t))
      \<and> 0 \<le> sint (tv_nsec ts) \<and> sint (tv_nsec ts) < 1000000000
    \<longrightarrow> (\<exists>s'. rtapi_wait ts ru tid s = Wait_Returned 0 s'
            \<and> timespec_ns (next_time (task_array s' ! t))
                = timespec_ns (next_time (task_array s ! t)) + sint (period (task_array s ! t))
            \<and> wait_registers_miss ts ru tid s
                = (timespec_ns (next_time (task_array s' ! t)) < timespec_ns ts
                   \<or> (sint (tv_nsec (next_time (task_array s' ! t))) = 1000000000
                      \<and> timespec_ns ts = timespec_ns (next_time (task_array s' ! t))))))
   \<and> (u < length (extra_task_data d) \<and> u < length (thread_status d)
      \<and> x_deleted (extra_task_data d ! u) = 0
      \<and> 0 \<le> sint (tv_nsec (x_next_time (extra_task_data d ! u)))
      \<and> sint (tv_nsec (x_next_time (extra_task_data d ! u))) \<le> 1000000000
      \<and> sint (tv_sec (x_next_time (extra_task_data d ! u))) + 4 < 2 ^ 63
      \<and> 0 \<le> sint (period (rtp_task_array d ! u))
      \<and> 0 \<le> sint (tv_nsec (hook_now env)) \<and> sint (tv_nsec (hook_now env)) < 1000000000
    \<longrightarrow> (\<exists>d'. rtp_wait_hook cfg env self u d = Hook_Returned 0 d'
            \<and> timespec_ns (x_next_time (extra_task_data d' ! u))
                = timespec_ns (x_next_time (extra_task_data d ! u))
                  + sint (period (rtp_task_array d ! u))
            \<and> hook_registers_miss cfg env self u d
                = (timespec_ns (x_next_time (extra_task_data d' ! u)) < timespec_ns (hook_now env)
                   \<or> (sint (tv_nsec (x_next_time (extra_task_data d' ! u))) = 1000000000
                      \<and> timespec_ns (hook_now env)
                          = timespec_ns (x_next_time (extra_task_data d' ! u))))))"
proof (rule conjI [OF impI impI], goal_cases)
  case 1
  let ?old = "next_time (task_array s ! t)"
  let ?p = "period (task_array s ! t)"
  let ?new = "rtapi_advance_time ?old (scast ?p) 0"
  from 1 have b: "rtapi_this_task tid s = Some t" "t < length (task_array s)"
      "deleted (task_array s ! t) = 0"
    by simp_all
  from wait_advance_then_test [OF b, of ts ru] obtain s' where
    r: "rtapi_wait ts ru tid s = Wait_Returned 0 s'" and
    nt: "next_time (task_array s' ! t) = ?new" and
    miss: "wait_registers_miss ts ru tid s = deadline_after ts ?new"
    by blast
  from 1 have val: "timespec_ns ?new = timespec_ns ?old + sint ?p"
    by (intro advance_time_value) simp_all
  from 1 advance_time_nsec_range [of ?old "scast ?p" 0]
  have "deadline_after ts ?new
          = (timespec_ns ?new < timespec_ns ts
             \<or> (sint (tv_nsec ?new) = 1000000000 \<and> timespec_ns ts = timespec_ns ?new))"
    by (intro deadline_after_ns) simp_all
  with r nt miss val show ?case by simp
next
  case 2
  let ?old = "x_next_time (extra_task_data d ! u)"
  let ?p = "period (rtp_task_array d ! u)"
  let ?new = "rtapi_advance_time ?old (scast ?p) 0"
  from 2 have b: "u < length (extra_task_data d)" "u < length (thread_status d)"
      "x_deleted (extra_task_data d ! u) = 0"
    by simp_all
  from hook_advance_then_test [OF b, of cfg env self] obtain d' where
    r: "rtp_wait_hook cfg env self u d = Hook_Returned 0 d'" and
    nt: "x_next_time (extra_task_data d' ! u) = ?new" and
    miss: "hook_registers_miss cfg env self u d = deadline_after (hook_now env) ?new"
    by blast
  from 2 have val: "timespec_ns ?new = timespec_ns ?old + sint ?p"
    by (intro advance_time_value) simp_all
  from 2 advance_time_nsec_range [of ?old "scast ?p" 0]
  have "deadline_after (hook_now env) ?new
          = (timespec_ns ?new < timespec_ns (hook_now env)
             \<or> (sint (tv_nsec ?new) = 1000000000 \<and> timespec_ns (hook_now env) = timespec_ns ?new))"
    by (intro deadline_after_ns) simp_all
  with r nt miss val show ?case by simp
qed

theorem wait_miss_against_advanced_witness:
  "rtapi_this_task 7 waiting_state = Some 0
   \<and> deleted (task_array waiting_state ! 0) = 0
   \<and> next_time (task_array waiting_state ! 0) = \<lparr>tv_sec = 10, tv_nsec = 1000000\<rparr>
   \<and> sint (period (task_array waiting_state ! 0)) = 1000000
   \<and> (\<exists>s'. rtapi_wait \<lparr>tv_sec = 10, tv_nsec = 2500000\<rparr> \<lparr>ru_minflt = 10, ru_majflt = 0\<rparr> 7 waiting_state
              = Wait_Returned 0 s'
            \<and> timespec_ns (next_time (task_array s' ! 0)) = 10002000000)
   \<and> wait_registers_miss \<lparr>tv_sec = 10, tv_nsec = 2500000\<rparr> \<lparr>ru_minflt = 10, ru_majflt = 0\<rparr> 7 waiting_state
   \<and> \<not> wait_registers_miss \<lparr>tv_sec = 10, tv_nsec = 1500000\<rparr> \<lparr>ru_minflt = 10, ru_majflt = 0\<rparr> 7 waiting_state
   \<and> rtapi_this_task 7 slip_state = Some 0
   \<and> next_time (task_array slip_state ! 0) = \<lparr>tv_sec = 5, tv_nsec = 999000000\<rparr>
   \<and> (\<exists>s'. rtapi_wait \<lparr>tv_sec = 6, tv_nsec = 0\<rparr> \<lparr>ru_minflt = 10, ru_majflt = 0\<rparr> 7 slip_state
              = Wait_Returned 0 s'
            \<and> next_time (task_array s' ! 0) = \<lparr>tv_sec = 5, tv_nsec = 1000000000\<rparr>
            \<and> timespec_ns (next_time (task_array s' ! 0)) = 6000000000)
   \<and> timespec_ns \<lparr>tv_sec = 6, tv_nsec = 0\<rparr> = 6000000000
   \<and> wait_registers_miss \<lparr>tv_sec = 6, tv_nsec = 0\<rparr> \<lparr>ru_minflt = 10, ru_majflt = 0\<rparr> 7 slip_state
   \<and> x_deleted (extra_task_data hook_state ! 1) = 0
   \<and> x_next_time (extra_task_data hook_state ! 1) = \<lparr>tv_sec = 10, tv_nsec = 1000000\<rparr>
   \<and> sint (period (rtp_task_array hook_state ! 1)) = 1000000
   \<and> hook_registers_miss hook_config1 hook_late 7 1 hook_state
   \<and> \<not> hook_registers_miss hook_config1 hook_in_time 7 1 hook_state
   \<and> hook_registers_miss hook_config1 hook_at_6s 7 1 hook_slip_state"
proof -
  let ?ru = "\<lparr>ru_minflt = 10, ru_majflt = 0\<rparr>"
  let ?late = "\<lparr>tv_sec = 10, tv_nsec = 2500000\<rparr>"
  let ?in_time = "\<lparr>tv_sec = 10, tv_nsec = 1500000\<rparr>"
  let ?at6 = "\<lparr>tv_sec = 6, tv_nsec = 0\<rparr>"
  have w: "rtapi_this_task 7 waiting_state = Some 0" "0 < length (task_array waiting_state)"
      "deleted (task_array waiting_state ! 0) = 0"
      "next_time (task_array waiting_state ! 0) = \<lparr>tv_sec = 10, tv_nsec = 1000000\<rparr>"
      "period (task_array waiting_state ! 0) = 1000000"
    by (simp_all add: waiting_state_eq) (simp_all add: eval_defs rtapi_consts)
  have sl: "rtapi_this_task 7 slip_state = Some 0" "0 < length (task_array slip_state)"
      "deleted (task_array slip_state ! 0) = 0"
      "next_time (task_array slip_state ! 0) = \<lparr>tv_sec = 5, tv_nsec = 999000000\<rparr>"
      "period (task_array slip_state ! 0) = 1000000"
    by (simp_all add: slip_state_eq) (simp_all add: eval_defs rtapi_consts)
  have h: "1 < length (extra_task_data hook_state)" "1 < length (thread_status hook_state)"
      "x_deleted (extra_task_data hook_state ! 1) = 0"
      "x_next_time (extra_task_data hook_state ! 1) = \<lparr>tv_sec = 10, tv_nsec = 1000000\<rparr>"
      "period (rtp_task_array hook_state ! 1) = 1000000"
    by (simp_all add: hook_state_def)
  have hs: "1 < length (extra_task_data hook_slip_state)" "1 < length (thread_status hook_slip_state)"
      "x_deleted (extra_task_data hook_slip_state ! 1) = 0"
      "x_next_time (extra_task_data hook_slip_state ! 1) = \<lparr>tv_sec = 5, tv_nsec = 999000000\<rparr>"
      "period (rtp_task_array hook_slip_state ! 1) = 1000000"
    by (simp_all add: hook_slip_state_def hook_state_def)
  have now: "hook_now hook_late = ?late" "hook_now hook_in_time = ?in_time"
      "hook_now hook_at_6s = ?at6"
    by (simp_all add: hook_late_def hook_in_time_def hook_at_6s_def)
  have adv: "rtapi_advance_time \<lparr>tv_sec = 5, tv_nsec = 999000000\<rparr> (scast (1000000 :: cint)) 0
               = \<lparr>tv_sec = 5, tv_nsec = 1000000000\<rparr>"
    by (simp add: rtapi_advance_time_def advance_loop.simps)
  have tm: "timespec_ns \<lparr>tv_sec = 10, tv_nsec = 1000000\<rparr> = 10001000000"
      "timespec_ns ?late = 10002500000" "timespec_ns ?in_time = 10001500000"
      "timespec_ns \<lparr>tv_sec = 5, tv_nsec = 999000000\<rparr> = 5999000000"
      "timespec_ns \<lparr>tv_sec = 5, tv_nsec = 1000000000\<rparr> = 6000000000"
      "timespec_ns ?at6 = 6000000000"
    by (simp_all add: timespec_ns_def)
  from wait_miss_against_advanced [where tid = 7 and s = waiting_state and t = 0 and ts = ?late
      and ru = ?ru, THEN conjunct1] w tm
  have c1: "\<exists>s'. rtapi_wait ?late ?ru 7 waiting_state = Wait_Returned 0 s'
              \<and> timespec_ns (next_time (task_array s' ! 0)) = 10002000000
              \<and> wait_registers_miss ?late ?ru 7 waiting_state"
    by auto
  from wait_miss_against_advanced [where tid = 7 and s = waiting_state and t = 0 and ts = ?in_time
      and ru = ?ru, THEN conjunct1] w tm
  have c2: "\<not> wait_registers_miss ?in_time ?ru 7 waiting_state"
    by auto
  from wait_advance_then_test [OF sl(1-3), of ?at6 ?ru] sl adv
  have e3: "\<exists>s'. rtapi_wait ?at6 ?ru 7 slip_state = Wait_Returned 0 s'
              \<and> next_time (task_array s' ! 0) = \<lparr>tv_sec = 5, tv_nsec = 1000000000\<rparr>"
    by simp
  from wait_miss_against_advanced [where tid = 7 and s = slip_state and t = 0 and ts = ?at6
      and ru = ?ru, THEN conjunct1] sl e3 tm
  have c3: "(\<exists>s'. rtapi_wait ?at6 ?ru 7 slip_state = Wait_Returned 0 s'
              \<and> next_time (task_array s' ! 0) = \<lparr>tv_sec = 5, tv_nsec = 1000000000\<rparr>
              \<and> timespec_ns (next_time (task_array s' ! 0)) = 6000000000)
            \<and> wait_registers_miss ?at6 ?ru 7 slip_state"
    by auto
  from wait_miss_against_advanced [where u = 1 and d = hook_state and env = hook_late
      and cfg = hook_config1 and self = 7, THEN conjunct2] h now tm
  have c4: "hook_registers_miss hook_config1 hook_late 7 1 hook_state"
    by auto
  from wait_miss_against_advanced [where u = 1 and d = hook_state and env = hook_in_time
      and cfg = hook_config1 and self = 7, THEN conjunct2] h now tm
  have c5: "\<not> hook_registers_miss hook_config1 hook_in_time 7 1 hook_state"
    by auto
  from hook_advance_then_test [OF hs(1-3), of hook_config1 hook_at_6s 7] hs adv
  have e6: "\<exists>d'. rtp_wait_hook hook_config1 hook_at_6s 7 1 hook_slip_state = Hook_Returned 0 d'
              \<and> x_next_time (extra_task_data d' ! 1) = \<lparr>tv_sec = 5, tv_nsec = 1000000000\<rparr>"
    by simp
  from wait_miss_against_advanced [where u = 1 and d = hook_slip_state and env = hook_at_6s
      and cfg = hook_config1 and self = 7, THEN conjunct2] hs now e6 tm
  have c6: "hook_registers_miss hook_config1 hook_at_6s 7 1 hook_slip_state"
    by auto
  have t6: "timespec_ns ?at6 = 6000000000" by (simp add: timespec_ns_def)
  from c1 have c1a: "\<exists>s'. rtapi_wait ?late ?ru 7 waiting_state = Wait_Returned 0 s'
                       \<and> timespec_ns (next_time (task_array s' ! 0)) = 10002000000"
    and c1b: "wait_registers_miss ?late ?ru 7 waiting_state"
    by blast+
  from w(5) have wp: "sint (period (task_array waiting_state ! 0)) = 1000000" by simp
  from h(5) have hp: "sint (period (rtp_task_array hook_state ! 1)) = 1000000" by simp
  from w(1,3,4) wp c1a c1b c2 sl(1,4) c3 t6 h(3,4) hp c4 c5 c6 show ?thesis
    by (intro conjI) (assumption | rule conjunct1 [OF c3] conjunct2 [OF c3])+
qed

text \<open>
  C3. The claim: every operation that writes a task's period (task\_start,
  task\_set\_period, the worker routine) keeps it at or above the clock tick, clamping
  smaller requests upward. The code does not meet it: with the tick at 1000000 ns and
  a task started with period 1000000 ns, rtapi\_task\_set\_period with 1 ns returns 0
  and stores 1, so the task is valid and its period is below the tick.
  rtapi\_task\_start, on the same task, had clamped 500000 ns to the tick.
\<close>

theorem task_set_period_below_clock_tick:
  "valid_task started_state 0
   \<and> sint (g_period started_state) = 1000000
   \<and> sint (period (task_array started_state ! 0)) = 1000000
   \<and> fst (rtapi_task_set_period 0 1 started_state) = 0
   \<and> valid_task (snd (rtapi_task_set_period 0 1 started_state)) 0
   \<and> sint (g_period (snd (rtapi_task_set_period 0 1 started_state))) = 1000000
   \<and> sint (period (task_array (snd (rtapi_task_set_period 0 1 started_state)) ! 0)) = 1"
  by (simp add: started_state_eq) (simp add: eval_defs rtapi_consts)

text \<open>
  C4. The claim: task\_delete on a task that was created and never started returns 0
  without attempting to join any thread, frees the stack and clears the slot. The
  code does not meet it: rtapi\_task\_new does not write the \<open>deleted\<close> flag, which is
  0 in a fresh slot, and rtapi\_task\_delete joins whenever the flag is 0. On the task
  of \<open>one_task_state\<close> it returns 0, frees the stack and clears the slot, and it has
  called pthread\_join on the slot's thread handle, which no pthread\_create has set.
\<close>

theorem task_delete_joins_unstarted_task:
  "joins one_task_state = []
   \<and> valid_task one_task_state 0
   \<and> deleted (task_array one_task_state ! 0) = 0
   \<and> fst (rtapi_task_delete 3 0 one_task_state) = 0
   \<and> joins (snd (rtapi_task_delete 3 0 one_task_state)) = [thread (task_array one_task_state ! 0)]
   \<and> thread (task_array one_task_state ! 0) = 0
   \<and> heap (snd (rtapi_task_delete 3 0 one_task_state)) = {}
   \<and> magic (task_array (snd (rtapi_task_delete 3 0 one_task_state)) ! 0) = 0"
  by (simp add: one_task_state_eq) (simp add: eval_defs rtapi_consts)




text \<open>
  C6. The claim: clock\_set\_period(0) returns the stored period and changes nothing;
  with n > 0 and the period set it returns EINVAL and leaves the period; the first
  clock\_set\_period(n) with n > 0 stores and returns n rounded down to a multiple of
  the clock resolution, at least one resolution tick. The third part does not hold
  as stated: the period is an \<open>int\<close> and the request an \<open>unsigned long\<close>. With
  resolution 1 and n = 3000000000 the rounded value is 3000000000, its low 32 bits
  read as a negative \<open>int\<close>, and the code stores and returns 1.
\<close>

theorem clock_set_period_counterexample:
  "g_period init_state = 0
   \<and> rtapi_clock_set_period 1 3000000000 init_state
       = Inr (1, rtapi_print_msg RTAPI_MSG_DBG (init_state\<lparr>g_period := 1\<rparr>))
   \<and> spec_rounded_period 1 3000000000 = 3000000000
   \<and> (\<forall>s'. rtapi_clock_set_period 1 3000000000 init_state
            \<noteq> Inr (int (spec_rounded_period 1 3000000000), s'))"
  by (simp add: rtapi_clock_set_period_def Let_def init_state_def spec_rounded_period_def)

text \<open>
  C6, amended: rtapi\_clock\_set\_period with 0 returns the stored period (0 when
  unset) and leaves the state as it is; with n > 0 and the period set it returns
  -EINVAL and leaves the period; with n > 0, the period unset, a resolution that is
  not 0 and the rounded value at most 2147483647 (INT\_MAX), it stores the rounded
  value and returns it.
\<close>

theorem clock_set_period_spec:
  "rtapi_clock_set_period res 0 s = Inr (sint (g_period s), s)
   \<and> (n \<noteq> 0 \<and> g_period s \<noteq> 0 \<longrightarrow>
        (\<exists>s'. rtapi_clock_set_period res n s = Inr (- EINVAL, s') \<and> g_period s' = g_period s))
   \<and> (n \<noteq> 0 \<and> g_period s = 0 \<and> res \<noteq> 0 \<and> spec_rounded_period (unat res) (unat n) \<le> 2147483647 \<longrightarrow>
        (\<exists>s'. rtapi_clock_set_period res n s = Inr (int (spec_rounded_period (unat res) (unat n)), s')
              \<and> sint (g_period s') = int (spec_rounded_period (unat res) (unat n))))"
  using clock_set_period_first [of res n s]
  by (auto simp add: rtapi_clock_set_period_def rtapi_print_msg_def)

theorem clock_set_period_spec_witness:
  "rtapi_clock_set_period 1 0 init_state = Inr (0, init_state)
   \<and> (\<exists>s'. rtapi_clock_set_period 1 500000 (init_state\<lparr>g_period := 1000000\<rparr>) = Inr (- EINVAL, s') \<and> g_period s' = 1000000)
   \<and> (\<exists>s'. rtapi_clock_set_period 4 1000001 init_state = Inr (1000000, s') \<and> sint (g_period s') = 1000000)
   \<and> (\<exists>s'. rtapi_clock_set_period 1000 7 init_state = Inr (1000, s') \<and> sint (g_period s') = 1000)"
proof -
  have a: "g_period init_state = 0" "(1000001 :: 64 word) \<noteq> 0" "(4 :: 64 word) \<noteq> 0"
     "(500000 :: 64 word) \<noteq> 0" "g_period (init_state\<lparr>g_period := 1000000\<rparr>) \<noteq> 0"
     "(7 :: 64 word) \<noteq> 0" "(1000 :: 64 word) \<noteq> 0"
    by (simp_all add: init_state_def)
  have b: "spec_rounded_period (unat (4 :: 64 word)) (unat (1000001 :: 64 word)) = 1000000"
     "spec_rounded_period (unat (1000 :: 64 word)) (unat (7 :: 64 word)) = 1000"
    by (simp_all add: spec_rounded_period_def)
  from clock_set_period_spec [of 1 init_state 500000]
       clock_set_period_spec [of 1 "init_state\<lparr>g_period := 1000000\<rparr>" 500000]
       clock_set_period_spec [of 4 init_state 1000001]
       clock_set_period_spec [of 1000 init_state 7] a b
  show ?thesis by simp
qed

text \<open>
  C7. The claim: with the module table full, init returns the EMFILE error code; with
  a free slot it returns the slot number plus the offset. It does not hold as stated:
  rtapi\_init of linux\_rtapi.c starts from \<open>result = -ENOMEM\<close> and returns that
  when every slot holds MODULE\_MAGIC.
\<close>

theorem init_full_counterexample:
  "map m_magic (module_array full_modules_state) = replicate MAX_MODULES MODULE_MAGIC
   \<and> rtapi_init None full_modules_state = (- ENOMEM, full_modules_state)
   \<and> fst (rtapi_init None full_modules_state) \<noteq> - EMFILE"
proof -
  have "module_scan 0 (module_array full_modules_state) = MAX_MODULES"
    by (intro module_scan_full) (simp_all add: full_modules_state_def)
  then show ?thesis
    by (simp add: rtapi_init_def) (simp add: full_modules_state_def ENOMEM_def EMFILE_def)
qed

text \<open>
  C7, amended: with the table full, rtapi\_init of linux\_rtapi.c returns -ENOMEM
  and \_rtapi\_init of rt-preempt.c returns -EMFILE, the table unchanged; with a free
  slot, each returns the number of the first free slot (from 0, and from 1) plus
  MODULE\_OFFSET, which is at least MODULE\_OFFSET, and marks that slot used.
\<close>

theorem init_full_or_handle:
  assumes "length (module_array s) = MAX_MODULES"
      and "length (rtp_module_array d) = RTAPI_MAX_MODULES cfg + 1"
  shows "((\<forall>k. k < MAX_MODULES \<longrightarrow> m_magic (module_array s ! k) = MODULE_MAGIC)
            \<longrightarrow> rtapi_init nm s = (- ENOMEM, s))
       \<and> (n < MAX_MODULES \<and> m_magic (module_array s ! n) \<noteq> MODULE_MAGIC
            \<and> (\<forall>k. k < n \<longrightarrow> m_magic (module_array s ! k) = MODULE_MAGIC)
            \<longrightarrow> fst (rtapi_init nm s) = int n + MODULE_OFFSET
              \<and> MODULE_OFFSET \<le> fst (rtapi_init nm s)
              \<and> m_magic (module_array (snd (rtapi_init nm s)) ! n) = MODULE_MAGIC)
       \<and> ((\<forall>k. 1 \<le> k \<and> k \<le> RTAPI_MAX_MODULES cfg \<longrightarrow> state (rtp_module_array d ! k) \<noteq> NO_MODULE)
            \<longrightarrow> fst (rtp_rtapi_init cfg nm d) = - EMFILE
              \<and> rtp_module_array (snd (rtp_rtapi_init cfg nm d)) = rtp_module_array d)
       \<and> (1 \<le> m \<and> m \<le> RTAPI_MAX_MODULES cfg \<and> state (rtp_module_array d ! m) = NO_MODULE
            \<and> (\<forall>k. 1 \<le> k \<and> k < m \<longrightarrow> state (rtp_module_array d ! k) \<noteq> NO_MODULE)
            \<longrightarrow> fst (rtp_rtapi_init cfg nm d) = int m + MODULE_OFFSET
              \<and> MODULE_OFFSET \<le> fst (rtp_rtapi_init cfg nm d)
              \<and> state (rtp_module_array (snd (rtp_rtapi_init cfg nm d)) ! m) = REALTIME)"
proof (intro conjI impI)
  assume "\<forall>k. k < MAX_MODULES \<longrightarrow> m_magic (module_array s ! k) = MODULE_MAGIC"
  then have "module_scan 0 (module_array s) = MAX_MODULES"
    by (intro module_scan_full) auto
  then show "rtapi_init nm s = (- ENOMEM, s)"
    by (simp add: rtapi_init_def)
next
  assume a: "n < MAX_MODULES \<and> m_magic (module_array s ! n) \<noteq> MODULE_MAGIC
            \<and> (\<forall>k. k < n \<longrightarrow> m_magic (module_array s ! k) = MODULE_MAGIC)"
  then have sc: "module_scan 0 (module_array s) = n"
    by (intro module_scan_first) auto
  with a show "fst (rtapi_init nm s) = int n + MODULE_OFFSET"
    by (simp add: rtapi_init_def)
  from sc a show "MODULE_OFFSET \<le> fst (rtapi_init nm s)"
    by (simp add: rtapi_init_def)
  from sc a assms show "m_magic (module_array (snd (rtapi_init nm s)) ! n) = MODULE_MAGIC"
    by (simp add: rtapi_init_def)
next
  assume a: "\<forall>k. 1 \<le> k \<and> k \<le> RTAPI_MAX_MODULES cfg \<longrightarrow> state (rtp_module_array d ! k) \<noteq> NO_MODULE"
  then have sc: "rtp_module_scan (RTAPI_MAX_MODULES cfg) 1 (rtp_module_array d) = RTAPI_MAX_MODULES cfg + 1"
    by (intro rtp_module_scan_full) auto
  then show "fst (rtp_rtapi_init cfg nm d) = - EMFILE"
    by (simp add: rtp_rtapi_init_def rtp_print_msg_def)
  from sc show "rtp_module_array (snd (rtp_rtapi_init cfg nm d)) = rtp_module_array d"
    by (simp add: rtp_rtapi_init_def rtp_print_msg_def)
next
  assume a: "1 \<le> m \<and> m \<le> RTAPI_MAX_MODULES cfg \<and> state (rtp_module_array d ! m) = NO_MODULE
            \<and> (\<forall>k. 1 \<le> k \<and> k < m \<longrightarrow> state (rtp_module_array d ! k) \<noteq> NO_MODULE)"
  then have sc: "rtp_module_scan (RTAPI_MAX_MODULES cfg) 1 (rtp_module_array d) = m"
    by (intro rtp_module_scan_first) auto
  with a show "fst (rtp_rtapi_init cfg nm d) = int m + MODULE_OFFSET"
    by (simp add: rtp_rtapi_init_def rtp_print_msg_def Let_def)
  from sc a show "MODULE_OFFSET \<le> fst (rtp_rtapi_init cfg nm d)"
    by (simp add: rtp_rtapi_init_def rtp_print_msg_def Let_def)
  from sc a assms show "state (rtp_module_array (snd (rtp_rtapi_init cfg nm d)) ! m) = REALTIME"
    by (simp add: rtp_rtapi_init_def rtp_print_msg_def Let_def)
qed

theorem init_full_or_handle_witness:
  "length (module_array full_modules_state) = MAX_MODULES
   \<and> length (module_array init_state) = MAX_MODULES
   \<and> length (rtp_module_array rtp_full) = RTAPI_MAX_MODULES small_config + 1
   \<and> length (rtp_module_array rtp_empty) = RTAPI_MAX_MODULES small_config + 1
   \<and> rtapi_init None full_modules_state = (- ENOMEM, full_modules_state)
   \<and> fst (rtapi_init None init_state) = int 0 + MODULE_OFFSET
   \<and> m_magic (module_array (snd (rtapi_init None init_state)) ! 0) = MODULE_MAGIC
   \<and> fst (rtp_rtapi_init small_config None rtp_full) = - EMFILE
   \<and> fst (rtp_rtapi_init small_config None rtp_empty) = int 1 + MODULE_OFFSET
   \<and> state (rtp_module_array (snd (rtp_rtapi_init small_config None rtp_empty)) ! 1) = REALTIME
   \<and> m_name (rtp_module_array (snd (rtp_rtapi_init small_config None rtp_empty)) ! 1) = ''ULMOD32769''"
proof -
  have len: "length (module_array full_modules_state) = MAX_MODULES"
      "length (module_array init_state) = MAX_MODULES"
      "length (rtp_module_array rtp_full) = RTAPI_MAX_MODULES small_config + 1"
      "length (rtp_module_array rtp_empty) = RTAPI_MAX_MODULES small_config + 1"
    by (simp_all add: full_modules_state_def init_state_def rtp_full_def rtp_empty_def small_config_def)
  have full: "\<forall>k. k < MAX_MODULES \<longrightarrow> m_magic (module_array full_modules_state ! k) = MODULE_MAGIC"
    by (simp add: full_modules_state_def)
  have free0: "0 < MAX_MODULES \<and> m_magic (module_array init_state ! 0) \<noteq> MODULE_MAGIC
       \<and> (\<forall>k. k < 0 \<longrightarrow> m_magic (module_array init_state ! k) = MODULE_MAGIC)"
    by (simp add: init_state_def MAX_MODULES_def MODULE_MAGIC_def)
  have rfull: "\<forall>k. 1 \<le> k \<and> k \<le> RTAPI_MAX_MODULES small_config
                 \<longrightarrow> state (rtp_module_array rtp_full ! k) \<noteq> NO_MODULE"
  proof (intro allI impI)
    fix k :: nat
    assume "1 \<le> k \<and> k \<le> RTAPI_MAX_MODULES small_config"
    then have "k = 1 \<or> k = 2" by (auto simp add: small_config_def)
    then show "state (rtp_module_array rtp_full ! k) \<noteq> NO_MODULE"
      by (auto simp add: rtp_full_def)
  qed
  have rfree: "1 \<le> (1::nat) \<and> 1 \<le> RTAPI_MAX_MODULES small_config
       \<and> state (rtp_module_array rtp_empty ! 1) = NO_MODULE
       \<and> (\<forall>k. 1 \<le> k \<and> k < 1 \<longrightarrow> state (rtp_module_array rtp_empty ! k) \<noteq> NO_MODULE)"
    by (simp add: small_config_def rtp_empty_def)
  have sc: "rtp_module_scan 2 (Suc 0) (rtp_module_array (rtp_print_msg RTAPI_MSG_DBG rtp_empty)) = 1"
    by (simp add: rtp_empty_def rtp_module_scan.simps rtp_print_msg_def)
  have nm: "m_name (rtp_module_array (snd (rtp_rtapi_init small_config None rtp_empty)) ! 1) = ''ULMOD32769''"
    by (simp add: rtp_rtapi_init_def small_config_def sc Let_def MODULE_OFFSET_def)
       (simp add: rtp_empty_def rtp_print_msg_def format_03d_def decimal.simps)
  note T1 = init_full_or_handle [OF len(1) len(3), where nm = None and n = 0 and m = 1]
  note T2 = init_full_or_handle [OF len(2) len(4), where nm = None and n = 0 and m = 1]
  from T1 full have a: "rtapi_init None full_modules_state = (- ENOMEM, full_modules_state)"
    by blast
  from T2 free0 have b: "fst (rtapi_init None init_state) = int 0 + MODULE_OFFSET
      \<and> m_magic (module_array (snd (rtapi_init None init_state)) ! 0) = MODULE_MAGIC"
    by blast
  from T1 rfull have c: "fst (rtp_rtapi_init small_config None rtp_full) = - EMFILE"
    by blast
  from T2 rfree have d: "fst (rtp_rtapi_init small_config None rtp_empty) = int 1 + MODULE_OFFSET
      \<and> state (rtp_module_array (snd (rtp_rtapi_init small_config None rtp_empty)) ! 1) = REALTIME"
    by blast
  from len a b c d nm show ?thesis by blast
qed

text \<open>
  C8. The claim: each wait cycle advances next\_wake by exactly the period with a
  correct carry into the seconds, the tv\_nsec component staying in [0, 999999999].
  The code does not meet it: the loop of rtapi\_advance\_time carries only while
  ns > 1000000000, so a sum of exactly 1000000000 ns is stored as it is. From
  5 s + 999000000 ns, a period of 1 ms gives 5 s + 1000000000 ns: the numeric value
  is the previous one plus the period, and the nanosecond field is out of range.
\<close>

theorem advance_time_nsec_out_of_range:
  "rtapi_advance_time \<lparr>tv_sec = 5, tv_nsec = 999000000\<rparr> 1000000 0
     = \<lparr>tv_sec = 5, tv_nsec = 1000000000\<rparr>
   \<and> sint (tv_nsec (rtapi_advance_time \<lparr>tv_sec = 5, tv_nsec = 999000000\<rparr> 1000000 0))
       > 999999999
   \<and> timespec_ns (rtapi_advance_time \<lparr>tv_sec = 5, tv_nsec = 999000000\<rparr> 1000000 0)
       = timespec_ns \<lparr>tv_sec = 5, tv_nsec = 999000000\<rparr> + 1000000"
  by (simp add: rtapi_advance_time_def advance_loop.simps timespec_ns_def)

text \<open>
  C9. task\_stop is idempotent: on a valid task id every call, the first and a repeated
  one, returns 0 and leaves the destroyed flag at 1; the call changes nothing else in
  the state, so it neither joins nor touches the thread; on an id out of range or
  with a foreign magic tag it returns -EINVAL and the state is unchanged.
\<close>

theorem task_stop_idempotent:
  assumes "wf_state s"
  shows "(valid_task s i \<longrightarrow>
            rtapi_task_stop i s = (0, upd_task (nat i) (\<lambda>x. x\<lparr>destroyed := 1\<rparr>) s)
          \<and> destroyed (task_array (snd (rtapi_task_stop i s)) ! nat i) = 1
          \<and> joins (snd (rtapi_task_stop i s)) = joins s
          \<and> thread (task_array (snd (rtapi_task_stop i s)) ! nat i) = thread (task_array s ! nat i)
          \<and> rtapi_task_stop i (snd (rtapi_task_stop i s)) = (0, snd (rtapi_task_stop i s)))
       \<and> (\<not> valid_task s i \<longrightarrow> rtapi_task_stop i s = (- EINVAL, s))"
proof (cases "valid_task s i")
  case True
  with assms have n: "nat i < length (task_array s)"
    by (auto simp add: valid_task_def wf_state_def)
  from True have first: "rtapi_task_stop i s = (0, upd_task (nat i) (\<lambda>x. x\<lparr>destroyed := 1\<rparr>) s)"
    by (simp add: rtapi_task_stop_def valid_task_def)
  let ?s' = "upd_task (nat i) (\<lambda>x. x\<lparr>destroyed := 1\<rparr>) s"
  from n have d: "destroyed (task_array ?s' ! nat i) = 1" by (simp add: nth_upd_task)
  from n have th: "thread (task_array ?s' ! nat i) = thread (task_array s ! nat i)"
    by (simp add: nth_upd_task)
  from n True have v': "valid_task ?s' i" by (simp add: valid_task_def nth_upd_task)
  have same: "upd_task (nat i) (\<lambda>x. x\<lparr>destroyed := 1\<rparr>) ?s' = ?s'"
    using d by (intro upd_task_same) simp
  from v' same have second: "rtapi_task_stop i ?s' = (0, ?s')"
    by (simp add: rtapi_task_stop_def valid_task_def)
  from True first d th second show ?thesis by simp
next
  case False
  then show ?thesis by (auto simp add: rtapi_task_stop_def valid_task_def)
qed

theorem task_stop_idempotent_witness:
  "wf_state one_task_state \<and> valid_task one_task_state 0
   \<and> rtapi_task_stop 0 one_task_state = (0, upd_task (nat 0) (\<lambda>x. x\<lparr>destroyed := 1\<rparr>) one_task_state)
   \<and> destroyed (task_array (snd (rtapi_task_stop 0 one_task_state)) ! nat 0) = 1
   \<and> joins (snd (rtapi_task_stop 0 one_task_state)) = joins one_task_state
   \<and> rtapi_task_stop 0 (snd (rtapi_task_stop 0 one_task_state)) = (0, snd (rtapi_task_stop 0 one_task_state))
   \<and> \<not> valid_task one_task_state 64 \<and> \<not> valid_task one_task_state 1
   \<and> rtapi_task_stop 64 one_task_state = (- EINVAL, one_task_state)
   \<and> rtapi_task_stop 1 one_task_state = (- EINVAL, one_task_state)"
proof -
  have v: "valid_task one_task_state 0" "\<not> valid_task one_task_state 64" "\<not> valid_task one_task_state 1"
    by (simp_all add: one_task_state_eq valid_task_def init_state_def empty_task_def rtapi_consts)
  from task_stop_idempotent [OF wf_one_task_state, of 0] task_stop_idempotent [OF wf_one_task_state, of 64]
    task_stop_idempotent [OF wf_one_task_state, of 1] v wf_one_task_state
  show ?thesis by blast
qed

text \<open>
  C10. rtapi\_wait reads the thread-local task pointer and dereferences it with no
  null check. In a thread that no rtapi\_task\_start of the run has created, the
  worker routine has never bound a task: rtapi\_this\_task yields null there and
  rtapi\_wait traps on the null pointer; it does not return.
\<close>

theorem wait_without_task_traps:
  assumes "run xs init_state = Inr s" and "tid \<notin> started_threads xs"
  shows "rtapi_this_task tid s = None \<and> rtapi_wait ts ru tid s = Wait_Fault NullDeref"
proof -
  from run_frame [OF wf_init_state assms(1), of 0 tid] assms(2)
  have "tls s tid = tls init_state tid" by simp
  then have "tls s tid = None" by (simp add: init_state_def)
  then show ?thesis by (simp add: wait_null rtapi_this_task_def)
qed

theorem wait_without_task_traps_witness:
  "run [Op_clock_set_period 1 1000000,
        Op_task_new fifo_sched 32 4096 1 0 50 0 16384 0 ''servo'' 0,
        Op_task_start good_start 0 500000] init_state = Inr started_state
   \<and> 8 \<notin> started_threads [Op_clock_set_period 1 1000000,
        Op_task_new fifo_sched 32 4096 1 0 50 0 16384 0 ''servo'' 0,
        Op_task_start good_start 0 500000]
   \<and> rtapi_this_task 7 started_state = Some 0
   \<and> rtapi_this_task 8 started_state = None
   \<and> rtapi_wait \<lparr>tv_sec = 1, tv_nsec = 0\<rparr> \<lparr>ru_minflt = 10, ru_majflt = 0\<rparr> 8 started_state = Wait_Fault NullDeref"
proof -
  have n: "8 \<notin> started_threads [Op_clock_set_period 1 1000000,
        Op_task_new fifo_sched 32 4096 1 0 50 0 16384 0 ''servo'' 0,
        Op_task_start good_start 0 500000]"
    by (simp add: good_start_def)
  have b: "rtapi_this_task 7 started_state = Some 0"
    by (simp add: started_state_eq rtapi_this_task_def)
  from wait_without_task_traps [OF run_started_state n] run_started_state n b show ?thesis by simp
qed

end
